theory Spec2Isabelle
  imports
    Complex_Main
    "HOL-Library.Multiset"
    "HOL-Library.Char_ord"
    "HOL-Library.List_Lexorder"
    "HOL-Library.Option_ord"
begin

section \<open>The store: the two tables the dashboard reads\<close>

text \<open>
  \<^verbatim>\<open>dashboard.py\<close> reads two tables of the bot's SQLite file, \<^verbatim>\<open>trades\<close> and
  \<^verbatim>\<open>market_sentiment\<close>. Their schema is declared by the bot, not by the dashboard, so
  the type of the \<^verbatim>\<open>timestamp\<close> column is a parameter \<open>'t\<close> of the model: any linearly
  ordered type (text under SQLite's binary collation, a number, or an \<open>option\<close> of
  either with \<open>None\<close> least, which is where SQLite sorts NULL). Every other column is
  nullable: \<open>None\<close> is SQL NULL. REAL columns are read as exact reals, so rounding of
  floating-point sums is outside the model.

  A row of \<^verbatim>\<open>trades\<close> carries the twelve columns that \<^verbatim>\<open>load_trades\<close> selects and, beyond
  them, the \<^verbatim>\<open>reflection\<close> column that the decision log looks for. The record of the
  selected columns is extended by \<^verbatim>\<open>reflection\<close>, so a stored row is a selected row with
  one more field.
\<close>

record 't trades_row =
  id_col :: int
  timestamp :: 't
  symbol :: "string option"
  action :: "string option"
  entry :: "real option"
  sl :: "real option"
  tp :: "real option"
  exit_price :: "real option"
  profit :: "real option"
  reason :: "string option"
  agent_name :: "string option"
  confidence :: "real option"

record 't trade = "'t trades_row" +
  reflection :: "string option"

record 't sentiment =
  timestamp_ms :: 't
  sentiment_score :: "real option"
  sentiment_signal :: "string option"
  fundamental_score :: "real option"
  fundamental_signal :: "string option"

text \<open>
  The connection \<^verbatim>\<open>conn\<close>. \<^verbatim>\<open>sqlite3.connect\<close> creates the file when it is missing, so
  an unreachable store shows as a query on a table that is not there; a table that
  cannot be read is \<open>None\<close>. The rows of a table are in scan (rowid) order.
\<close>

record 't database =
  trades :: "'t trade list option"
  market_sentiment :: "'t sentiment list option"

datatype error = DatabaseError | ZeroDivisionError | TypeError

section \<open>SQL as list functions\<close>

text \<open>
  \<^verbatim>\<open>pd.read_sql_query(query, conn)\<close>: runs the query on the table, and raises
  \<^verbatim>\<open>DatabaseError\<close> when the statement cannot be executed.
\<close>

definition read_sql_query :: "('r list \<Rightarrow> 'a) \<Rightarrow> 'r list option \<Rightarrow> error + 'a" where
  "read_sql_query query tbl = (case tbl of None \<Rightarrow> Inl DatabaseError | Some rows \<Rightarrow> Inr (query rows))"

text \<open>The non-NULL values of a column.\<close>

definition non_null :: "'a option list \<Rightarrow> 'a list" where
  "non_null vs = map the (filter (\<lambda>v. v \<noteq> None) vs)"

text \<open>\<^verbatim>\<open>SUM(x)\<close>: the sum of the non-NULL values, NULL when there is none.\<close>

definition sql_sum :: "'a::comm_monoid_add option list \<Rightarrow> 'a option" where
  "sql_sum vs = (if non_null vs = [] then None else Some (sum_list (non_null vs)))"

text \<open>\<^verbatim>\<open>AVG(x)\<close>: the mean of the non-NULL values, NULL when there is none.\<close>

definition sql_avg :: "real option list \<Rightarrow> real option" where
  "sql_avg vs = (if non_null vs = [] then None
                 else Some (sum_list (non_null vs) / real (length (non_null vs))))"

text \<open>\<^verbatim>\<open>x > c\<close> in a \<^verbatim>\<open>CASE WHEN\<close>: a comparison with NULL is not true.\<close>

definition sql_gt :: "real option \<Rightarrow> real \<Rightarrow> bool" where
  "sql_gt v c = (case v of None \<Rightarrow> False | Some x \<Rightarrow> x > c)"

text \<open>
  \<^verbatim>\<open>ORDER BY key\<close> and \<^verbatim>\<open>ORDER BY key DESC\<close>. Rows with equal keys stay in scan order.
\<close>

definition order_by :: "('r \<Rightarrow> 'k::linorder) \<Rightarrow> 'r list \<Rightarrow> 'r list" where
  "order_by key rows = sort_key key rows"

definition order_by_desc :: "('r \<Rightarrow> 'k::linorder) \<Rightarrow> 'r list \<Rightarrow> 'r list" where
  "order_by_desc key rows = rev (sort_key key (rev rows))"

text \<open>
  \<^verbatim>\<open>GROUP BY key\<close>: one group per distinct key, NULL being a key like any other; SQLite
  sorts the rows on the key to find the groups, so the groups come in ascending order.
\<close>

definition group_by :: "('r \<Rightarrow> 'k::linorder) \<Rightarrow> 'r list \<Rightarrow> ('k \<times> 'r list) list" where
  "group_by key rows =
     map (\<lambda>k. (k, filter (\<lambda>r. key r = k) rows)) (remdups (sort (map key rows)))"

section \<open>The four loaders\<close>

text \<open>
  \<^verbatim>\<open>load_trades\<close>: the twelve selected columns of the 100 rows with the latest timestamps.
\<close>

definition load_trades_query :: "'t::linorder trade list \<Rightarrow> 't trades_row list" where
  "load_trades_query tbl = take 100 (order_by_desc timestamp (map trades_row.truncate tbl))"

definition load_trades :: "'t::linorder database \<Rightarrow> error + 't trades_row list" where
  "load_trades conn = read_sql_query load_trades_query (trades conn)"

text \<open>\<^verbatim>\<open>load_sentiment_history\<close>: the 50 latest sentiment rows, latest first.\<close>

definition load_sentiment_history_query :: "'t::linorder sentiment list \<Rightarrow> 't sentiment list" where
  "load_sentiment_history_query tbl = take 50 (order_by_desc timestamp_ms tbl)"

definition load_sentiment_history :: "'t::linorder database \<Rightarrow> error + 't sentiment list" where
  "load_sentiment_history conn = read_sql_query load_sentiment_history_query (market_sentiment conn)"

text \<open>
  \<^verbatim>\<open>load_agent_performance\<close>: the closed trades (\<^verbatim>\<open>WHERE profit IS NOT NULL\<close>), grouped
  by \<^verbatim>\<open>agent_name\<close>, with five aggregates for each group.
\<close>

record agent_perf_row =
  agent_name_ap :: "string option"
  total_trades :: int
  wins :: "int option"
  total_profit :: "real option"
  avg_profit :: "real option"
  avg_confidence :: "real option"

definition load_agent_performance_query :: "'t trade list \<Rightarrow> agent_perf_row list" where
  "load_agent_performance_query tbl =
     map (\<lambda>(k, g).
            \<lparr>agent_name_ap = k,
             total_trades = int (length g),
             wins = sql_sum (map (\<lambda>r. Some (if sql_gt (profit r) 0 then 1 else 0)) g),
             total_profit = sql_sum (map profit g),
             avg_profit = sql_avg (map profit g),
             avg_confidence = sql_avg (map confidence g)\<rparr>)
         (group_by agent_name (filter (\<lambda>r. profit r \<noteq> None) tbl))"

definition load_agent_performance :: "'t database \<Rightarrow> error + agent_perf_row list" where
  "load_agent_performance conn = read_sql_query load_agent_performance_query (trades conn)"

text \<open>
  \<^verbatim>\<open>SUM(val) OVER (ORDER BY key)\<close>. The window has no frame clause, so its frame is SQL's
  default, \<^verbatim>\<open>RANGE BETWEEN UNBOUNDED PRECEDING AND CURRENT ROW\<close>: for each row of the
  partition in key order, the rows from the first one to the last row whose key equals
  the current row's.
\<close>

definition sum_over_order_by ::
  "('r \<Rightarrow> 'k::linorder) \<Rightarrow> ('r \<Rightarrow> real option) \<Rightarrow> 'r list \<Rightarrow> ('r \<times> real option) list" where
  "sum_over_order_by key val rows =
     (let part = sort_key key rows
      in map (\<lambda>r. (r, sql_sum (map val (takeWhile (\<lambda>u. key u \<le> key r) part)))) part)"

text \<open>\<^verbatim>\<open>get_equity_curve\<close>: the closed trades by timestamp, each with the window sum.\<close>

record 't equity_point =
  timestamp_ec :: 't
  cumulative_profit :: "real option"

definition get_equity_curve_query :: "'t::linorder trade list \<Rightarrow> 't equity_point list" where
  "get_equity_curve_query tbl =
     map (\<lambda>(r, s). \<lparr>timestamp_ec = timestamp r, cumulative_profit = s\<rparr>)
         (order_by (\<lambda>(r, s). timestamp r)
            (sum_over_order_by timestamp profit (filter (\<lambda>r. profit r \<noteq> None) tbl)))"

definition get_equity_curve :: "'t::linorder database \<Rightarrow> error + 't equity_point list" where
  "get_equity_curve conn = read_sql_query get_equity_curve_query (trades conn)"

section \<open>The cache in front of three of the loaders\<close>

text \<open>
  \<^verbatim>\<open>@st.cache_data(ttl=n)\<close> on a function without arguments: one entry, the value the
  function returned and the time it was stored. A call at time \<open>now\<close> (in seconds)
  returns the stored value while the entry is younger than \<open>ttl\<close>; otherwise it runs the
  function and stores what it returns. A call that raises stores nothing.
\<close>

record 'a cache_entry =
  cached_value :: 'a
  stored_at :: nat

definition cache_data ::
  "nat \<Rightarrow> ('c \<Rightarrow> error + 'a) \<Rightarrow> 'a cache_entry option \<Rightarrow> nat \<Rightarrow> 'c \<Rightarrow> (error + 'a) \<times> 'a cache_entry option" where
  "cache_data ttl f slot now conn =
     (let miss = (case f conn of
                    Inl e \<Rightarrow> (Inl e, None)
                  | Inr v \<Rightarrow> (Inr v, Some \<lparr>cached_value = v, stored_at = now\<rparr>))
      in case slot of
           None \<Rightarrow> miss
         | Some e \<Rightarrow> if now < stored_at e + ttl then (Inr (cached_value e), slot) else miss)"

record 't cache =
  trades_cache :: "'t trades_row list cache_entry option"
  agent_performance_cache :: "agent_perf_row list cache_entry option"
  sentiment_history_cache :: "'t sentiment list cache_entry option"

definition empty_cache :: "'t cache" where
  "empty_cache = \<lparr>trades_cache = None, agent_performance_cache = None, sentiment_history_cache = None\<rparr>"

section \<open>The sentiment signal on a numeric axis\<close>

text \<open>
  \<^verbatim>\<open>signal_map = {'BULLISH': 1, 'NEUTRAL': 0, 'BEARISH': -1}\<close> and
  \<^verbatim>\<open>sentiment_df['sentiment_signal'].map(signal_map).fillna(0)\<close>: a value that is not a
  key of the dictionary, NULL included, maps to NaN, which \<^verbatim>\<open>fillna(0)\<close> turns into 0.
\<close>

definition signal_map :: "string \<rightharpoonup> real" where
  "signal_map = [''BULLISH'' \<mapsto> 1, ''NEUTRAL'' \<mapsto> 0, ''BEARISH'' \<mapsto> -1]"

definition series_map :: "('k \<rightharpoonup> real) \<Rightarrow> 'k option \<Rightarrow> real option" where
  "series_map d v = (case v of None \<Rightarrow> None | Some k \<Rightarrow> d k)"

definition fillna :: "real \<Rightarrow> real option \<Rightarrow> real" where
  "fillna c v = (case v of None \<Rightarrow> c | Some x \<Rightarrow> x)"

definition signal_value :: "string option \<Rightarrow> real" where
  "signal_value s = fillna 0 (series_map signal_map s)"

section \<open>The page\<close>

text \<open>
  What the script shows in a place is either content or the \<^verbatim>\<open>st.info\<close> placeholder of
  the \<^verbatim>\<open>else\<close> branch.
\<close>

datatype 'a view = Info string | Shown 'a

subsection \<open>Headline metrics (lines 122 to 148)\<close>

text \<open>\<^verbatim>\<open>Series.isin(values)\<close> is false on a missing value; \<^verbatim>\<open>Series.sum()\<close> skips them.\<close>

definition isin :: "string list \<Rightarrow> string option \<Rightarrow> bool" where
  "isin vs v = (case v of None \<Rightarrow> False | Some x \<Rightarrow> x \<in> set vs)"

definition pd_sum :: "'a::comm_monoid_add option list \<Rightarrow> 'a" where
  "pd_sum vs = sum_list (non_null vs)"

definition total_trades_hl :: "'t trades_row list \<Rightarrow> nat" where
  "total_trades_hl trades_df = length (filter (\<lambda>r. isin [''BUY'', ''SELL''] (action r)) trades_df)"

definition total_profit_hl :: "'t trades_row list \<Rightarrow> real" where
  "total_profit_hl trades_df = (if trades_df \<noteq> [] then pd_sum (map profit trades_df) else 0)"

text \<open>
  A division by zero is an error value of the model, so that a guard against it is
  visible (in HOL itself \<open>x / 0 = 0\<close>).
\<close>

definition true_div :: "real \<Rightarrow> real \<Rightarrow> error + real" where
  "true_div a b = (if b = 0 then Inl ZeroDivisionError else Inr (a / b))"

definition win_rate_hl :: "agent_perf_row list \<Rightarrow> nat \<Rightarrow> error + real" where
  "win_rate_hl agent_perf n_trades =
     (if agent_perf \<noteq> [] then
        (if n_trades > 0 then
           (case true_div (real_of_int (pd_sum (map wins agent_perf))) (real n_trades) of
              Inl e \<Rightarrow> Inl e
            | Inr q \<Rightarrow> Inr (q * 100))
         else Inr 0)
      else Inr 0)"

definition latest_sentiment_hl :: "'t sentiment list \<Rightarrow> string option" where
  "latest_sentiment_hl sentiment_df =
     (case sentiment_df of [] \<Rightarrow> Some ''N/A'' | r # _ \<Rightarrow> sentiment_signal r)"

subsection \<open>Equity curve and leaderboard (lines 155 to 215)\<close>

definition equity_chart :: "'t equity_point list \<Rightarrow> 't equity_point list view" where
  "equity_chart equity_df =
     (if equity_df \<noteq> [] then Shown equity_df else Info ''Belum ada data equity'')"

text \<open>
  \<^verbatim>\<open>DataFrame.sort_values(by, ascending)\<close> is called with its default algorithm,
  \<^verbatim>\<open>kind='quicksort'\<close>, which pandas documents as not stable. The source fixes no more
  than that, so the sorting function is a parameter of the page, and
  \<open>sort_values_spec\<close> is what the library promises of it: the same rows, in the order of
  the key.
\<close>

definition sort_values_spec :: "(('a \<Rightarrow> 'k::linorder) \<Rightarrow> bool \<Rightarrow> 'a list \<Rightarrow> 'a list) \<Rightarrow> bool" where
  "sort_values_spec srt \<longleftrightarrow>
     (\<forall>key asc xs. mset (srt key asc xs) = mset xs \<and>
        sorted (map key (if asc then srt key asc xs else rev (srt key asc xs))))"

text \<open>
  Line 182, \<^verbatim>\<open>(agent_perf['wins'] / agent_perf['total_trades'] * 100).fillna(0)\<close>, row by
  row: a missing operand and \<open>0 / 0\<close> give NaN, which \<^verbatim>\<open>fillna(0)\<close> replaces by 0; any
  other division by zero is the error value.
\<close>

definition series_div :: "int option \<Rightarrow> int \<Rightarrow> error + real option" where
  "series_div a b =
     (case a of
        None \<Rightarrow> Inr None
      | Some x \<Rightarrow>
          if b \<noteq> 0 then Inr (Some (real_of_int x / real_of_int b))
          else if x = 0 then Inr None
          else Inl ZeroDivisionError)"

record leaderboard_row = agent_perf_row +
  win_rate :: real

definition add_win_rate :: "agent_perf_row \<Rightarrow> error + leaderboard_row" where
  "add_win_rate r =
     (case series_div (wins r) (total_trades r) of
        Inl e \<Rightarrow> Inl e
      | Inr q \<Rightarrow>
          Inr \<lparr>agent_name_ap = agent_name_ap r, total_trades = total_trades r, wins = wins r,
               total_profit = total_profit r, avg_profit = avg_profit r,
               avg_confidence = avg_confidence r,
               win_rate = fillna 0 (map_option (\<lambda>x. x * 100) q)\<rparr>)"

fun collect :: "(error + 'a) list \<Rightarrow> error + 'a list" where
  "collect [] = Inr []"
| "collect (x # xs) =
     (case x of
        Inl e \<Rightarrow> Inl e
      | Inr v \<Rightarrow> (case collect xs of Inl e \<Rightarrow> Inl e | Inr vs \<Rightarrow> Inr (v # vs)))"

definition leaderboard ::
  "((leaderboard_row \<Rightarrow> real option) \<Rightarrow> bool \<Rightarrow> leaderboard_row list \<Rightarrow> leaderboard_row list) \<Rightarrow>
   agent_perf_row list \<Rightarrow> error + leaderboard_row list view" where
  "leaderboard sort_values agent_perf =
     (if agent_perf \<noteq> [] then
        (case collect (map add_win_rate agent_perf) of
           Inl e \<Rightarrow> Inl e
         | Inr rows \<Rightarrow> Inr (Shown (sort_values total_profit False rows)))
      else Inr (Info ''Belum ada data performa agent''))"

subsection \<open>Sentiment charts (lines 219 to 269)\<close>

text \<open>
  The frame is sorted by timestamp once, for both charts. \<^verbatim>\<open>pd.to_datetime\<close> is the
  identity of the model: \<open>'t\<close> stands for the parsed time.
\<close>

definition sentiment_sorted ::
  "(('t sentiment \<Rightarrow> 't) \<Rightarrow> bool \<Rightarrow> 't sentiment list \<Rightarrow> 't sentiment list) \<Rightarrow>
   't sentiment list \<Rightarrow> 't sentiment list" where
  "sentiment_sorted sort_values sentiment_df = sort_values timestamp_ms True sentiment_df"

definition sentiment_score_chart ::
  "(('t sentiment \<Rightarrow> 't) \<Rightarrow> bool \<Rightarrow> 't sentiment list \<Rightarrow> 't sentiment list) \<Rightarrow>
   't sentiment list \<Rightarrow> ('t \<times> real option) list view" where
  "sentiment_score_chart sort_values sentiment_df =
     (if sentiment_df \<noteq> [] then
        Shown (map (\<lambda>r. (timestamp_ms r, sentiment_score r)) (sentiment_sorted sort_values sentiment_df))
      else Info ''Belum ada data sentimen'')"

definition sentiment_signal_chart ::
  "(('t sentiment \<Rightarrow> 't) \<Rightarrow> bool \<Rightarrow> 't sentiment list \<Rightarrow> 't sentiment list) \<Rightarrow>
   't sentiment list \<Rightarrow> ('t \<times> real) list view" where
  "sentiment_signal_chart sort_values sentiment_df =
     (if sentiment_df \<noteq> [] then
        Shown (map (\<lambda>r. (timestamp_ms r, signal_value (sentiment_signal r)))
                 (sentiment_sorted sort_values sentiment_df))
      else Info ''Belum ada data signal'')"

subsection \<open>Trade history and decision logs (lines 273 to 322)\<close>

text \<open>
  A row of \<^verbatim>\<open>trades_df\<close> read by column name: the frame has the columns of the
  \<^verbatim>\<open>SELECT\<close> list of \<^verbatim>\<open>load_trades\<close> and no other, and \<^verbatim>\<open>row.get(k, d)\<close> is \<open>d\<close> for a
  name that is not a column. The number formats of the table and of the expander's
  label are left out: the model shows the values.
\<close>

datatype 't val = NullV | IntV int | NumV real | TextV string | TimeV 't

definition text_val :: "string option \<Rightarrow> 't val" where
  "text_val v = (case v of None \<Rightarrow> NullV | Some x \<Rightarrow> TextV x)"

definition num_val :: "real option \<Rightarrow> 't val" where
  "num_val v = (case v of None \<Rightarrow> NullV | Some x \<Rightarrow> NumV x)"

definition trades_columns :: "string list" where
  "trades_columns =
     [''id'', ''timestamp'', ''symbol'', ''action'', ''entry'', ''sl'', ''tp'', ''exit_price'',
      ''profit'', ''reason'', ''agent_name'', ''confidence'']"

definition row_values :: "'t trades_row \<Rightarrow> 't val list" where
  "row_values row =
     [IntV (id_col row), TimeV (timestamp row), text_val (symbol row), text_val (action row),
      num_val (entry row), num_val (sl row), num_val (tp row), num_val (exit_price row),
      num_val (profit row), text_val (reason row), text_val (agent_name row),
      num_val (confidence row)]"

definition row_get :: "'t trades_row \<Rightarrow> string \<Rightarrow> 't val \<Rightarrow> 't val" where
  "row_get row k d = (case map_of (zip trades_columns (row_values row)) k of None \<Rightarrow> d | Some v \<Rightarrow> v)"

definition notna :: "'t val \<Rightarrow> bool" where
  "notna v \<longleftrightarrow> v \<noteq> NullV"

definition filtered_trades :: "string \<Rightarrow> 't trades_row list \<Rightarrow> 't trades_row list" where
  "filtered_trades selected_agent trades_df =
     (if selected_agent \<noteq> ''Semua'' then filter (\<lambda>r. agent_name r = Some selected_agent) trades_df
      else trades_df)"

definition display_cols :: "string list" where
  "display_cols =
     [''timestamp'', ''action'', ''entry'', ''sl'', ''tp'', ''exit_price'', ''profit'', ''agent_name'',
      ''confidence'']"

text \<open>
  \<^verbatim>\<open>pd.read_sql_query\<close> gives a column in which every value is NULL the dtype
  \<^verbatim>\<open>object\<close>, each value being \<^verbatim>\<open>None\<close>; a numeric column with a number in it is
  \<^verbatim>\<open>float64\<close>, its NULLs being NaN. Selecting rows keeps the dtype, so it is a property
  of the whole frame \<^verbatim>\<open>trades_df\<close>.
\<close>

definition object_dtype :: "('r \<Rightarrow> 'a option) \<Rightarrow> 'r list \<Rightarrow> bool" where
  "object_dtype col df \<longleftrightarrow> (\<forall>r\<in>set df. col r = None)"

text \<open>
  \<^verbatim>\<open>Series.round(decimals)\<close> on a \<^verbatim>\<open>float64\<close> column: to the nearest multiple of
  \<open>10 ^ - decimals\<close>, a tie going to the even one; NaN stays NaN. On a column of dtype
  \<^verbatim>\<open>object\<close> it raises \<^verbatim>\<open>TypeError\<close>.
\<close>

definition rint :: "real \<Rightarrow> real" where
  "rint x =
     (let f = \<lfloor>x\<rfloor>; d = x - of_int f
      in if d < 1 / 2 then of_int f
         else if 1 / 2 < d then of_int (f + 1)
         else if even f then of_int f else of_int (f + 1))"

definition np_round :: "nat \<Rightarrow> real \<Rightarrow> real" where
  "np_round decimals x = rint (x * 10 ^ decimals) / 10 ^ decimals"

definition series_round :: "nat \<Rightarrow> real option \<Rightarrow> real option" where
  "series_round decimals v = map_option (np_round decimals) v"

definition color_profit :: "real option \<Rightarrow> string" where
  "color_profit v =
     (case v of
        None \<Rightarrow> ''color: black''
      | Some x \<Rightarrow> if x > 0 then ''color: green'' else if x < 0 then ''color: red'' else ''color: black'')"

record 't display_row =
  cells :: "(string \<times> 't val) list"
  profit_style :: string

text \<open>
  Lines 283 to 307. The columns of \<^verbatim>\<open>display_cols\<close> are taken, the six numeric ones
  are rounded (lines 289 to 294), and the rounded profit is coloured.
\<close>

definition display_row :: "'t trades_row \<Rightarrow> 't display_row" where
  "display_row row =
     \<lparr>cells =
        zip display_cols
          [TimeV (timestamp row), text_val (action row),
           num_val (series_round 2 (entry row)), num_val (series_round 2 (sl row)),
           num_val (series_round 2 (tp row)), num_val (series_round 2 (exit_price row)),
           num_val (series_round 0 (profit row)), text_val (agent_name row),
           num_val (series_round 2 (confidence row))],
      profit_style = color_profit (series_round 0 (profit row))\<rparr>"

definition trade_history :: "'t trades_row list \<Rightarrow> 't trades_row list \<Rightarrow> error + 't display_row list view" where
  "trade_history trades_df filtered =
     (if filtered \<noteq> [] then
        (if object_dtype entry trades_df \<or> object_dtype sl trades_df \<or> object_dtype tp trades_df \<or>
            object_dtype exit_price trades_df \<or> object_dtype profit trades_df \<or>
            object_dtype confidence trades_df
         then Inl TypeError
         else Inr (Shown (map display_row filtered)))
      else Inr (Info ''Belum ada data trade''))"

text \<open>
  One expander for each of the first five filtered rows: its label, the reason line,
  and the reflection line when \<^verbatim>\<open>pd.notna(row.get('reflection'))\<close>.
\<close>

record 't decision_log =
  expander :: "'t val list"
  reason_line :: "'t val"
  reflection_line :: "'t val option"

definition decision_log :: "'t trades_row \<Rightarrow> 't decision_log" where
  "decision_log row =
     \<lparr>expander = map (\<lambda>c. row_get row c NullV) [''timestamp'', ''action'', ''agent_name'', ''confidence''],
      reason_line = row_get row ''reason'' (TextV ''No reason provided''),
      reflection_line =
        (if notna (row_get row ''reflection'' NullV) then Some (row_get row ''reflection'' NullV)
         else None)\<rparr>"

definition decision_logs :: "'t trades_row list \<Rightarrow> 't decision_log list view" where
  "decision_logs filtered =
     (if filtered \<noteq> [] \<and> ''reason'' \<in> set trades_columns then Shown (map decision_log (take 5 filtered))
      else Info ''Belum ada decision logs'')"

text \<open>
  The label of an expander (line 317) formats \<^verbatim>\<open>row['confidence']\<close> with \<^verbatim>\<open>:.2f\<close>, which
  raises \<^verbatim>\<open>TypeError\<close> on \<^verbatim>\<open>None\<close>, the value of a NULL in a column of dtype
  \<^verbatim>\<open>object\<close>.
\<close>

definition decision_logs_drawn ::
  "'t trades_row list \<Rightarrow> 't trades_row list \<Rightarrow> error + 't decision_log list view" where
  "decision_logs_drawn trades_df filtered =
     (if filtered \<noteq> [] \<and> ''reason'' \<in> set trades_columns \<and> object_dtype confidence trades_df
      then Inl TypeError
      else Inr (decision_logs filtered))"

subsection \<open>The script\<close>

record 't page =
  metric_total_trades :: nat
  metric_total_profit :: real
  metric_win_rate :: real
  metric_sentiment :: "string option"
  chart_equity :: "'t equity_point list view"
  chart_leaderboard :: "leaderboard_row list view"
  chart_sentiment_score :: "('t \<times> real option) list view"
  chart_sentiment_signal :: "('t \<times> real) list view"
  table_trades :: "'t display_row list view"
  logs :: "'t decision_log list view"

text \<open>
  Lines 121 to 322, on the four frames loaded at lines 116 to 119. The sections are
  drawn in the order of the script, and the first exception ends the run.
\<close>

definition main_dashboard ::
  "((leaderboard_row \<Rightarrow> real option) \<Rightarrow> bool \<Rightarrow> leaderboard_row list \<Rightarrow> leaderboard_row list) \<Rightarrow>
   (('t sentiment \<Rightarrow> 't) \<Rightarrow> bool \<Rightarrow> 't sentiment list \<Rightarrow> 't sentiment list) \<Rightarrow>
   string \<Rightarrow> 't trades_row list \<Rightarrow> agent_perf_row list \<Rightarrow> 't sentiment list \<Rightarrow>
   't equity_point list \<Rightarrow> error + 't page" where
  "main_dashboard sort_lb sort_sent selected_agent trades_df agent_perf sentiment_df equity_df =
     (case win_rate_hl agent_perf (total_trades_hl trades_df) of
        Inl e \<Rightarrow> Inl e
      | Inr wr \<Rightarrow>
          (case leaderboard sort_lb agent_perf of
             Inl e \<Rightarrow> Inl e
           | Inr lb \<Rightarrow>
               (case trade_history trades_df (filtered_trades selected_agent trades_df) of
                  Inl e \<Rightarrow> Inl e
                | Inr th \<Rightarrow>
                    (case decision_logs_drawn trades_df (filtered_trades selected_agent trades_df) of
                       Inl e \<Rightarrow> Inl e
                     | Inr lg \<Rightarrow>
                         Inr \<lparr>metric_total_trades = total_trades_hl trades_df,
                              metric_total_profit = total_profit_hl trades_df,
                              metric_win_rate = wr,
                              metric_sentiment = latest_sentiment_hl sentiment_df,
                              chart_equity = equity_chart equity_df,
                              chart_leaderboard = lb,
                              chart_sentiment_score = sentiment_score_chart sort_sent sentiment_df,
                              chart_sentiment_signal = sentiment_signal_chart sort_sent sentiment_df,
                              table_trades = th,
                              logs = lg\<rparr>))))"

text \<open>
  Lines 116 to 119: three loaders behind their caches (10, 60 and 300 seconds) and
  \<^verbatim>\<open>get_equity_curve\<close>, which has none. An exception ends the loading there.
\<close>

definition load_data ::
  "'t::linorder cache \<Rightarrow> nat \<Rightarrow> 't database \<Rightarrow>
   (error + 't trades_row list \<times> agent_perf_row list \<times> 't sentiment list \<times> 't equity_point list) \<times> 't cache" where
  "load_data c now conn =
     (case cache_data 10 load_trades (trades_cache c) now conn of
        (r1, s1) \<Rightarrow>
          let c1 = c\<lparr>trades_cache := s1\<rparr> in
          (case r1 of
             Inl e \<Rightarrow> (Inl e, c1)
           | Inr trades_df \<Rightarrow>
               (case cache_data 60 load_agent_performance (agent_performance_cache c1) now conn of
                  (r2, s2) \<Rightarrow>
                    let c2 = c1\<lparr>agent_performance_cache := s2\<rparr> in
                    (case r2 of
                       Inl e \<Rightarrow> (Inl e, c2)
                     | Inr agent_perf \<Rightarrow>
                         (case cache_data 300 load_sentiment_history (sentiment_history_cache c2) now conn of
                            (r3, s3) \<Rightarrow>
                              let c3 = c2\<lparr>sentiment_history_cache := s3\<rparr> in
                              (case r3 of
                                 Inl e \<Rightarrow> (Inl e, c3)
                               | Inr sentiment_df \<Rightarrow>
                                   (case get_equity_curve conn of
                                      Inl e \<Rightarrow> (Inl e, c3)
                                    | Inr equity_df \<Rightarrow>
                                        (Inr (trades_df, agent_perf, sentiment_df, equity_df), c3))))))))"

text \<open>
  Line 101, the options of the agent selector:
  \<^verbatim>\<open>SELECT DISTINCT agent_name FROM trades WHERE agent_name IS NOT NULL\<close>, after the
  sentinel \<^verbatim>\<open>'Semua'\<close> (all agents).
\<close>

definition agent_list_query :: "'t trade list \<Rightarrow> string list" where
  "agent_list_query tbl = rev (remdups (rev (non_null (map agent_name tbl))))"

definition agent_options :: "'t database \<Rightarrow> error + string list" where
  "agent_options conn =
     (case read_sql_query agent_list_query (trades conn) of
        Inl e \<Rightarrow> Inl e
      | Inr names \<Rightarrow> Inr (''Semua'' # names))"

text \<open>
  One run of the script. With the sidebar's auto-refresh box ticked, line 90
  (\<^verbatim>\<open>st.rerun()\<close>) restarts the script before any query. Otherwise the selector's options
  are read, the user's choice \<open>selected_agent\<close> is taken, the frames are loaded and the
  page is drawn; there is no \<^verbatim>\<open>try\<close> in the script, so an exception ends the run.
\<close>

datatype 't run = Rerun | Raised error | Rendered "'t page"

definition dashboard ::
  "((leaderboard_row \<Rightarrow> real option) \<Rightarrow> bool \<Rightarrow> leaderboard_row list \<Rightarrow> leaderboard_row list) \<Rightarrow>
   (('t sentiment \<Rightarrow> 't) \<Rightarrow> bool \<Rightarrow> 't sentiment list \<Rightarrow> 't sentiment list) \<Rightarrow>
   bool \<Rightarrow> string \<Rightarrow> 't::linorder cache \<Rightarrow> nat \<Rightarrow> 't database \<Rightarrow> 't run \<times> 't cache" where
  "dashboard sort_lb sort_sent auto_refresh selected_agent c now conn =
     (if auto_refresh then (Rerun, c)
      else
        (case agent_options conn of
           Inl e \<Rightarrow> (Raised e, c)
         | Inr opts \<Rightarrow>
             (case load_data c now conn of
                (Inl e, c') \<Rightarrow> (Raised e, c')
              | (Inr (trades_df, agent_perf, sentiment_df, equity_df), c') \<Rightarrow>
                  (case main_dashboard sort_lb sort_sent selected_agent trades_df agent_perf
                          sentiment_df equity_df of
                     Inl e \<Rightarrow> (Raised e, c')
                   | Inr pg \<Rightarrow> (Rendered pg, c')))))"

section \<open>Sorting functions, matching caches and example stores\<close>

text \<open>
  A sorting function that meets \<open>sort_values_spec\<close>: ascending by insertion, descending
  as the reverse of that, which turns rows of equal key around. It is one admissible
  sorting function, not the library's: the examples that use it sort frames whose keys
  are pairwise different, where every admissible sorting function returns the same
  rows in the same order.
\<close>

definition sort_values_unstable :: "('a \<Rightarrow> 'k::linorder) \<Rightarrow> bool \<Rightarrow> 'a list \<Rightarrow> 'a list" where
  "sort_values_unstable key asc xs = (if asc then sort_key key xs else rev (sort_key key xs))"

text \<open>
  What the library does with the one key of line 183. pandas sorts a frame by one
  column with \<^verbatim>\<open>nargsort\<close>: ascending it argsorts the keys; descending it reverses the
  frame, argsorts, and reverses the result. The argsort is numpy's, with
  \<^verbatim>\<open>kind='quicksort'\<close>. Where numpy sorts 64-bit keys with its vectorised routine (x86
  with AVX2 or AVX-512), four keys go through a network of compare-and-exchange steps:
  first the two pairs of neighbours, then the outer and the inner pair, then the
  neighbours again. \<open>cmp_merge\<close> is one such step on two lanes: the left lane takes the
  smaller key, the right lane the greater, and each lane keeps its own row when the
  key it takes is its own, so two rows change places only if the left key is greater.
  With two or three keys that routine returns the rows in the order of an insertion
  sort, as numpy's scalar quicksort does on short arrays; \<open>argsort_network\<close> sorts
  every frame that does not have four rows that way. Only frames of up to four rows
  are sorted with it below.
\<close>

definition cmp_merge :: "('a \<Rightarrow> 'k::linorder) \<Rightarrow> 'a \<Rightarrow> 'a \<Rightarrow> 'a \<times> 'a" where
  "cmp_merge key x y = (if key x \<le> key y then (x, y) else (y, x))"

definition argsort_network :: "('a \<Rightarrow> 'k::linorder) \<Rightarrow> 'a list \<Rightarrow> 'a list" where
  "argsort_network key xs =
     (case xs of
        [x0, x1, x2, x3] \<Rightarrow>
          (case (cmp_merge key x0 x1, cmp_merge key x2 x3) of
             ((a0, a1), (a2, a3)) \<Rightarrow>
               (case (cmp_merge key a0 a3, cmp_merge key a1 a2) of
                  ((b0, b3), (b1, b2)) \<Rightarrow>
                    (case (cmp_merge key b0 b1, cmp_merge key b2 b3) of
                       ((c0, c1), (c2, c3)) \<Rightarrow> [c0, c1, c2, c3])))
      | _ \<Rightarrow> sort_key key xs)"

definition nargsort ::
  "(('a \<Rightarrow> 'k) \<Rightarrow> 'a list \<Rightarrow> 'a list) \<Rightarrow> ('a \<Rightarrow> 'k::linorder) \<Rightarrow> bool \<Rightarrow> 'a list \<Rightarrow> 'a list" where
  "nargsort argsort key asc xs = (if asc then argsort key xs else rev (argsort key (rev xs)))"

definition sort_values_quicksort :: "('a \<Rightarrow> 'k::linorder) \<Rightarrow> bool \<Rightarrow> 'a list \<Rightarrow> 'a list" where
  "sort_values_quicksort = nargsort argsort_network"

definition sentiment_ex :: "nat sentiment list" where
  "sentiment_ex =
     [\<lparr>timestamp_ms = 2, sentiment_score = Some 40, sentiment_signal = Some ''PANIC'',
       fundamental_score = None, fundamental_signal = None\<rparr>,
      \<lparr>timestamp_ms = 1, sentiment_score = Some 70, sentiment_signal = Some ''BULLISH'',
       fundamental_score = None, fundamental_signal = None\<rparr>,
      \<lparr>timestamp_ms = 3, sentiment_score = None, sentiment_signal = None,
       fundamental_score = None, fundamental_signal = None\<rparr>]"

text \<open>
  Example rows of \<^verbatim>\<open>trades\<close>: id, timestamp, action, profit (NULL while the trade is
  open) and agent; the other columns are filled the same way in every example.
\<close>

definition trade_ex :: "int \<Rightarrow> nat \<Rightarrow> string \<Rightarrow> real option \<Rightarrow> string \<Rightarrow> nat trade" where
  "trade_ex i t a p ag =
     \<lparr>id_col = i, timestamp = t, symbol = Some ''BTCIDR'', action = Some a, entry = Some 100,
      sl = Some 90, tp = Some 120, exit_price = map_option (\<lambda>x. 100 + x) p, profit = p,
      reason = Some ''breakout'', agent_name = Some ag, confidence = Some (3 / 4),
      reflection = Some ''exit was late''\<rparr>"

definition tie_trades :: "nat trade list" where
  "tie_trades = [trade_ex 1 5 ''BUY'' (Some 10) ''alpha'', trade_ex 2 5 ''SELL'' (Some 20) ''beta'']"

definition scenario_trades :: "nat trade list" where
  "scenario_trades =
     [trade_ex 1 1 ''BUY'' (Some 10) ''alpha'', trade_ex 2 2 ''SELL'' (Some (-5)) ''alpha'',
      trade_ex 3 3 ''BUY'' (Some 20) ''beta'', trade_ex 4 4 ''BUY'' None ''beta'']"

text \<open>Two agents with a total profit of 10 each.\<close>

definition tied_agents_trades :: "nat trade list" where
  "tied_agents_trades = [trade_ex 1 1 ''BUY'' (Some 10) ''alpha'', trade_ex 2 2 ''SELL'' (Some 10) ''beta'']"

text \<open>
  Four agents with one closed trade each: \<^verbatim>\<open>agent_a\<close> and \<^verbatim>\<open>agent_b\<close> with a profit of
  10, \<^verbatim>\<open>agent_c\<close> and \<^verbatim>\<open>agent_d\<close> with a profit of 20.
\<close>

definition four_agents_trades :: "nat trade list" where
  "four_agents_trades =
     [trade_ex 1 1 ''BUY'' (Some 10) ''agent_a'', trade_ex 2 2 ''SELL'' (Some 10) ''agent_b'',
      trade_ex 3 3 ''BUY'' (Some 20) ''agent_c'', trade_ex 4 4 ''SELL'' (Some 20) ''agent_d'']"

text \<open>
  A history of 101 closed trades, each a BUY of agent alpha with a profit of 1.
\<close>

definition winning_trades :: "nat trade list" where
  "winning_trades = map (\<lambda>i. trade_ex (int i) i ''BUY'' (Some 1) ''alpha'') [0..<101]"

text \<open>A history of one closed trade whose stored row has a reflection.\<close>

definition reflected_trades :: "nat trade list" where
  "reflected_trades = [trade_ex 1 1 ''BUY'' (Some 10) ''alpha'']"

text \<open>
  A cache slot matches a store when it is empty or holds what the loader returns on
  that store; a cache matches when its three slots do. \<open>direct_load\<close> is lines 116 to
  119 with the decorators taken away: the four function bodies, one after the other.
\<close>

definition slot_matches :: "('c \<Rightarrow> error + 'a) \<Rightarrow> 'c \<Rightarrow> 'a cache_entry option \<Rightarrow> bool" where
  "slot_matches f conn slot \<longleftrightarrow> (case slot of None \<Rightarrow> True | Some e \<Rightarrow> f conn = Inr (cached_value e))"

definition cache_matches :: "'t::linorder cache \<Rightarrow> 't database \<Rightarrow> bool" where
  "cache_matches c conn \<longleftrightarrow>
     slot_matches load_trades conn (trades_cache c) \<and>
     slot_matches load_agent_performance conn (agent_performance_cache c) \<and>
     slot_matches load_sentiment_history conn (sentiment_history_cache c)"

definition direct_load ::
  "'t::linorder database \<Rightarrow>
   error + 't trades_row list \<times> agent_perf_row list \<times> 't sentiment list \<times> 't equity_point list" where
  "direct_load conn =
     (case load_trades conn of
        Inl e \<Rightarrow> Inl e
      | Inr a \<Rightarrow>
          (case load_agent_performance conn of
             Inl e \<Rightarrow> Inl e
           | Inr b \<Rightarrow>
               (case load_sentiment_history conn of
                  Inl e \<Rightarrow> Inl e
                | Inr c \<Rightarrow>
                    (case get_equity_curve conn of
                       Inl e \<Rightarrow> Inl e
                     | Inr d \<Rightarrow> Inr (a, b, c, d)))))"

text \<open>A store before and after the first trade is written.\<close>

definition store_before :: "nat database" where
  "store_before = \<lparr>trades = Some [], market_sentiment = Some []\<rparr>"

definition store_after :: "nat database" where
  "store_after = \<lparr>trades = Some reflected_trades, market_sentiment = Some []\<rparr>"

section \<open>Properties\<close>

subsection \<open>Sorting\<close>

lemma sort_values_unstable_spec: "sort_values_spec sort_values_unstable"
  by (simp add: sort_values_spec_def sort_values_unstable_def)

lemma argsort_network_four:
  "mset (argsort_network key [x0, x1, x2, x3]) = mset [x0, x1, x2, x3]"
  "sorted (map key (argsort_network key [x0, x1, x2, x3]))"
  by (auto simp add: argsort_network_def cmp_merge_def)

lemma argsort_network_sorts:
  "mset (argsort_network key xs) = mset xs \<and> sorted (map key (argsort_network key xs))"
proof (cases "\<exists>x0 x1 x2 x3. xs = [x0, x1, x2, x3]")
  case True
  then show ?thesis using argsort_network_four [of key] by auto
next
  case False
  then have "argsort_network key xs = sort_key key xs"
    by (auto simp add: argsort_network_def split: list.splits)
  then show ?thesis by simp
qed

lemma sort_values_quicksort_spec: "sort_values_spec sort_values_quicksort"
  unfolding sort_values_spec_def
proof (intro allI)
  fix key :: "'a \<Rightarrow> 'b::linorder" and asc xs
  from argsort_network_sorts [of key xs] argsort_network_sorts [of key "rev xs"]
  show "mset (sort_values_quicksort key asc xs) = mset xs \<and>
        sorted (map key (if asc then sort_values_quicksort key asc xs
                         else rev (sort_values_quicksort key asc xs)))"
    by (simp add: sort_values_quicksort_def nargsort_def)
qed

subsection \<open>The signal mapping\<close>

lemma signal_value_known:
  "signal_value (Some ''BULLISH'') = 1"
  "signal_value (Some ''NEUTRAL'') = 0"
  "signal_value (Some ''BEARISH'') = -1"
  by (simp_all add: signal_value_def fillna_def series_map_def signal_map_def)

lemma signal_value_other:
  "s \<notin> {Some ''BULLISH'', Some ''NEUTRAL'', Some ''BEARISH''} \<Longrightarrow> signal_value s = 0"
  by (cases s) (auto simp add: signal_value_def fillna_def series_map_def signal_map_def)

text \<open>
  C5. The mapping of the sentiment signal is total: BULLISH is 1, NEUTRAL is 0, BEARISH
  is -1 and every other value, NULL included, is 0; and the signal chart plots, for
  every record of the loaded sentiment frame, its timestamp against that value,
  whatever admissible sorting function orders the frame.
\<close>

theorem signal_mapping_total:
  "signal_value (Some ''BULLISH'') = 1 \<and> signal_value (Some ''NEUTRAL'') = 0 \<and>
   signal_value (Some ''BEARISH'') = -1 \<and>
   (s \<notin> {Some ''BULLISH'', Some ''NEUTRAL'', Some ''BEARISH''} \<longrightarrow> signal_value s = 0) \<and>
   (sort_values_spec sort_values \<and> sentiment_df \<noteq> [] \<longrightarrow>
      (\<exists>pts. sentiment_signal_chart sort_values sentiment_df = Shown pts \<and>
         mset pts = image_mset (\<lambda>r. (timestamp_ms r, signal_value (sentiment_signal r))) (mset sentiment_df)))"
proof -
  have chart: "\<exists>pts. sentiment_signal_chart sort_values sentiment_df = Shown pts \<and>
         mset pts = image_mset (\<lambda>r. (timestamp_ms r, signal_value (sentiment_signal r))) (mset sentiment_df)"
    if spec: "sort_values_spec sort_values" and ne: "sentiment_df \<noteq> []"
  proof -
    from spec have "mset (sort_values timestamp_ms True sentiment_df) = mset sentiment_df"
      unfolding sort_values_spec_def by blast
    then have "mset (map (\<lambda>r. (timestamp_ms r, signal_value (sentiment_signal r)))
                 (sentiment_sorted sort_values sentiment_df)) =
               image_mset (\<lambda>r. (timestamp_ms r, signal_value (sentiment_signal r))) (mset sentiment_df)"
      by (simp add: sentiment_sorted_def)
    with ne show ?thesis
      by (simp add: sentiment_signal_chart_def)
  qed
  show ?thesis
    using signal_value_known signal_value_other [of s] chart by blast
qed

theorem signal_mapping_total_witness:
  "signal_value (Some ''PANIC'') = 0 \<and> signal_value None = 0 \<and>
   sentiment_signal_chart sort_values_unstable sentiment_ex = Shown [(1, 1), (2, 0), (3, 0)]"
proof -
  have a: "signal_value (Some ''PANIC'') = 0"
    using signal_mapping_total [of "Some ''PANIC''" sort_values_unstable sentiment_ex] by simp
  have b: "signal_value None = 0"
    using signal_mapping_total [of None sort_values_unstable sentiment_ex] by simp
  have c: "sentiment_signal_chart sort_values_unstable sentiment_ex = Shown [(1, 1), (2, 0), (3, 0)]"
    using a b signal_value_known
    by (simp add: sentiment_signal_chart_def sentiment_sorted_def sort_values_unstable_def sentiment_ex_def)
  from a b c show ?thesis by blast
qed

subsection \<open>The equity curve\<close>

lemma takeWhile_le_sorted:
  "sorted (map f xs) \<Longrightarrow> takeWhile (\<lambda>u. f u \<le> x) xs = filter (\<lambda>u. f u \<le> x) xs"
proof (induction xs)
  case Nil
  then show ?case by simp
next
  case (Cons a xs)
  show ?case
  proof (cases "f a \<le> x")
    case True
    with Cons show ?thesis by simp
  next
    case False
    from Cons.prems have "\<forall>y\<in>set xs. f a \<le> f y" by simp
    with False have "\<forall>y\<in>set xs. \<not> f y \<le> x" by fastforce
    then have "filter (\<lambda>u. f u \<le> x) xs = []" by (simp add: filter_empty_conv)
    with False show ?thesis by simp
  qed
qed

lemma sum_list_filter_sort_key:
  fixes g :: "'a \<Rightarrow> 'b::comm_monoid_add"
  shows "sum_list (map g (filter P (sort_key f xs))) = sum_list (map g (filter P xs))"
proof -
  have "mset (map g (filter P (sort_key f xs))) = mset (map g (filter P xs))"
    by simp
  then show ?thesis
    by (metis sum_mset_sum_list)
qed

lemma non_null_map_Some:
  "\<forall>r\<in>set rs. v r \<noteq> None \<Longrightarrow> non_null (map v rs) = map (the \<circ> v) rs"
  by (induction rs) (auto simp add: non_null_def)

lemma sql_sum_all_Some:
  "\<forall>r\<in>set rs. v r \<noteq> None \<Longrightarrow> rs \<noteq> [] \<Longrightarrow> sql_sum (map v rs) = Some (sum_list (map (the \<circ> v) rs))"
  by (simp add: sql_sum_def non_null_map_Some)

lemma filter_le_sorted_take:
  assumes srt: "sorted (map f xs)" and k: "k < length xs"
    and nxt: "Suc k < length xs \<longrightarrow> f (xs ! k) < f (xs ! Suc k)"
  shows "filter (\<lambda>u. f u \<le> f (xs ! k)) xs = take (Suc k) xs"
proof -
  have mono: "f (xs ! i) \<le> f (xs ! j)" if "i \<le> j" "j < length xs" for i j
    using sorted_nth_mono [OF srt, of i j] that by simp
  have low: "\<forall>u\<in>set (take (Suc k) xs). f u \<le> f (xs ! k)"
  proof
    fix u assume "u \<in> set (take (Suc k) xs)"
    then obtain i where "i < Suc k" "i < length xs" "u = xs ! i"
      by (auto simp add: in_set_conv_nth)
    then show "f u \<le> f (xs ! k)" using mono [of i k] k by simp
  qed
  have high: "\<forall>u\<in>set (drop (Suc k) xs). \<not> f u \<le> f (xs ! k)"
  proof
    fix u assume "u \<in> set (drop (Suc k) xs)"
    then obtain j where j: "j < length (drop (Suc k) xs)" "u = drop (Suc k) xs ! j"
      by (metis in_set_conv_nth)
    then have i: "Suc k + j < length xs" "u = xs ! (Suc k + j)"
      by simp_all
    then have "f (xs ! k) < f (xs ! Suc k)" using nxt by simp
    moreover have "f (xs ! Suc k) \<le> f u" using mono [of "Suc k" "Suc k + j"] i by simp
    ultimately show "\<not> f u \<le> f (xs ! k)" by simp
  qed
  have "filter (\<lambda>u. f u \<le> f (xs ! k)) xs =
        filter (\<lambda>u. f u \<le> f (xs ! k)) (take (Suc k) xs) @ filter (\<lambda>u. f u \<le> f (xs ! k)) (drop (Suc k) xs)"
    by (metis append_take_drop_id filter_append)
  also have "filter (\<lambda>u. f u \<le> f (xs ! k)) (take (Suc k) xs) = take (Suc k) xs"
    using low by (simp add: filter_id_conv)
  also have "filter (\<lambda>u. f u \<le> f (xs ! k)) (drop (Suc k) xs) = []"
    using high by (simp add: filter_empty_conv)
  finally show ?thesis by simp
qed

lemma get_equity_curve_query_eq:
  fixes tbl :: "'t::linorder trade list"
  defines "cls \<equiv> filter (\<lambda>r. profit r \<noteq> None) tbl"
  shows "get_equity_curve_query tbl =
     map (\<lambda>r. \<lparr>timestamp_ec = timestamp r,
               cumulative_profit =
                 Some (sum_list (map (the \<circ> profit) (filter (\<lambda>u. timestamp u \<le> timestamp r) cls)))\<rparr>)
       (sort_key timestamp cls)"
proof -
  let ?S = "sort_key timestamp cls"
  let ?F = "\<lambda>r. sql_sum (map profit (takeWhile (\<lambda>u. timestamp u \<le> timestamp r) ?S))"
  have srt: "sorted (map timestamp ?S)" by simp
  have win: "sum_over_order_by timestamp profit cls = map (\<lambda>r. (r, ?F r)) ?S"
    by (simp add: sum_over_order_by_def Let_def)
  have "sorted (map (\<lambda>(r, s). timestamp r) (map (\<lambda>r. (r, ?F r)) ?S))"
    using srt by (simp add: comp_def)
  then have ord: "order_by (\<lambda>(r, s). timestamp r) (map (\<lambda>r. (r, ?F r)) ?S) = map (\<lambda>r. (r, ?F r)) ?S"
    unfolding order_by_def by (rule sort_key_id_if_sorted)
  have val: "?F r = Some (sum_list (map (the \<circ> profit) (filter (\<lambda>u. timestamp u \<le> timestamp r) cls)))"
    if r: "r \<in> set ?S" for r
  proof -
    let ?fr = "filter (\<lambda>u. timestamp u \<le> timestamp r) ?S"
    have tw: "takeWhile (\<lambda>u. timestamp u \<le> timestamp r) ?S = ?fr"
      using srt by (rule takeWhile_le_sorted)
    have "r \<in> set ?fr" using r by simp
    then have ne: "?fr \<noteq> []" by (metis empty_iff list.set(1))
    have cl: "\<forall>u\<in>set ?fr. profit u \<noteq> None" by (simp add: cls_def)
    have "?F r = Some (sum_list (map (the \<circ> profit) ?fr))"
      unfolding tw using cl ne by (rule sql_sum_all_Some)
    also have "sum_list (map (the \<circ> profit) ?fr) =
      sum_list (map (the \<circ> profit) (filter (\<lambda>u. timestamp u \<le> timestamp r) cls))"
      by (rule sum_list_filter_sort_key)
    finally show ?thesis .
  qed
  have "get_equity_curve_query tbl =
      map (\<lambda>(r, s). \<lparr>timestamp_ec = timestamp r, cumulative_profit = s\<rparr>) (map (\<lambda>r. (r, ?F r)) ?S)"
    unfolding get_equity_curve_query_def cls_def [symmetric] win ord ..
  also have "\<dots> = map (\<lambda>r. \<lparr>timestamp_ec = timestamp r, cumulative_profit = ?F r\<rparr>) ?S"
    by (simp add: comp_def)
  also have "\<dots> = map (\<lambda>r. \<lparr>timestamp_ec = timestamp r,
               cumulative_profit =
                 Some (sum_list (map (the \<circ> profit) (filter (\<lambda>u. timestamp u \<le> timestamp r) cls)))\<rparr>) ?S"
    by (rule map_cong) (simp_all add: val)
  finally show ?thesis .
qed


lemma range_sum_take:
  fixes g :: "'a \<Rightarrow> real" and f :: "'a \<Rightarrow> 'k::linorder"
  assumes k: "k < length xs" 
    and nxt: "Suc k < length xs \<longrightarrow> f (sort_key f xs ! k) < f (sort_key f xs ! Suc k)"
  shows "sum_list (map g (filter (\<lambda>u. f u \<le> f (sort_key f xs ! k)) xs)) =
         sum_list (map g (take (Suc k) (sort_key f xs)))"
proof -
  let ?S = "sort_key f xs"
  have "sum_list (map g (filter (\<lambda>u. f u \<le> f (?S ! k)) xs)) =
        sum_list (map g (filter (\<lambda>u. f u \<le> f (?S ! k)) ?S))"
    by (rule sum_list_filter_sort_key [symmetric])
  also have "filter (\<lambda>u. f u \<le> f (?S ! k)) ?S = take (Suc k) ?S"
    using k nxt by (intro filter_le_sorted_take) simp_all
  finally show ?thesis .
qed

text \<open>
  C1, as the code has it. For every store whose \<^verbatim>\<open>trades\<close> table can be read,
  \<^verbatim>\<open>get_equity_curve\<close> returns one point for each closed trade (profit not NULL), in
  ascending order of timestamp: the timestamps are those of the closed trades sorted by
  timestamp. The cumulative value of a point is the sum of the profits of all closed
  trades whose timestamp is at most the point's. Hence two points of equal timestamp
  carry the same value, and the prefix-sum law
  \<open>cumulative[k] = cumulative[k - 1] + profit[k]\<close> (with \<open>cumulative[0] = profit[0]\<close>)
  holds at every \<open>k\<close> whose timestamp differs from those of its neighbours.
\<close>

theorem equity_curve_range_sums:
  fixes conn :: "'t::linorder database"
  defines "g \<equiv> (\<lambda>r :: 't trade. the (profit r))"
  assumes tbl: "trades conn = Some tbl"
    and cls: "cls = filter (\<lambda>r. profit r \<noteq> None) tbl"
    and S: "S = sort_key timestamp cls"
  shows "\<exists>pts. get_equity_curve conn = Inr pts \<and>
     length pts = length cls \<and> mset S = mset cls \<and>
     map timestamp_ec pts = map timestamp S \<and> sorted (map timestamp_ec pts) \<and>
     (\<forall>k. k < length pts \<longrightarrow>
        cumulative_profit (pts ! k) =
          Some (sum_list (map g (filter (\<lambda>r. timestamp r \<le> timestamp_ec (pts ! k)) cls)))) \<and>
     (\<forall>k. Suc k < length pts \<and> timestamp_ec (pts ! k) = timestamp_ec (pts ! Suc k) \<longrightarrow>
        cumulative_profit (pts ! Suc k) = cumulative_profit (pts ! k)) \<and>
     (\<forall>k. k < length pts \<and> (0 < k \<longrightarrow> timestamp_ec (pts ! (k - 1)) < timestamp_ec (pts ! k)) \<and>
          (Suc k < length pts \<longrightarrow> timestamp_ec (pts ! k) < timestamp_ec (pts ! Suc k)) \<longrightarrow>
        cumulative_profit (pts ! k) =
          Some ((if k = 0 then 0 else the (cumulative_profit (pts ! (k - 1)))) + g (S ! k)))"
proof -
  define A where "A r = sum_list (map g (filter (\<lambda>u. timestamp u \<le> timestamp r) cls))" for r :: "'t trade"
  define pts where "pts = map (\<lambda>r. \<lparr>timestamp_ec = timestamp r, cumulative_profit = Some (A r)\<rparr>) S"
  have q: "get_equity_curve_query tbl = pts"
    unfolding pts_def A_def S cls g_def using get_equity_curve_query_eq [of tbl]
    by (simp add: comp_def)
  have len: "length pts = length S" by (simp add: pts_def)
  have lenS: "length S = length cls" by (simp add: S)
  have ts: "timestamp_ec (pts ! k) = timestamp (S ! k)" if "k < length S" for k
    using that by (simp add: pts_def)
  have cum: "cumulative_profit (pts ! k) = Some (A (S ! k))" if "k < length S" for k
    using that by (simp add: pts_def)
  have c1: "get_equity_curve conn = Inr pts"
    by (simp add: get_equity_curve_def read_sql_query_def tbl q)
  have c3: "mset S = mset cls" by (simp add: S)
  have c4: "map timestamp_ec pts = map timestamp S" by (simp add: pts_def comp_def)
  have c5: "sorted (map timestamp_ec pts)" unfolding c4 by (simp add: S)
  have c6: "cumulative_profit (pts ! k) =
          Some (sum_list (map g (filter (\<lambda>r. timestamp r \<le> timestamp_ec (pts ! k)) cls)))"
    if "k < length pts" for k
    using that len by (simp add: cum ts A_def)
  have c7: "cumulative_profit (pts ! Suc k) = cumulative_profit (pts ! k)"
    if "Suc k < length pts" "timestamp_ec (pts ! k) = timestamp_ec (pts ! Suc k)" for k
    using that len by (simp add: cum ts A_def)
  have take_sum: "A (S ! k) = sum_list (map g (take (Suc k) S))"
    if "k < length S" "Suc k < length S \<longrightarrow> timestamp (S ! k) < timestamp (S ! Suc k)" for k
    unfolding A_def S using that lenS range_sum_take [of k cls timestamp g] by (simp add: S)
  have c8: "cumulative_profit (pts ! k) =
          Some ((if k = 0 then 0 else the (cumulative_profit (pts ! (k - 1)))) + g (S ! k))"
    if k: "k < length pts"
      and prev: "0 < k \<longrightarrow> timestamp_ec (pts ! (k - 1)) < timestamp_ec (pts ! k)"
      and nxt: "Suc k < length pts \<longrightarrow> timestamp_ec (pts ! k) < timestamp_ec (pts ! Suc k)" for k
  proof -
    from k len have kS: "k < length S" by simp
    have here: "A (S ! k) = sum_list (map g (take (Suc k) S))"
      using kS nxt len by (intro take_sum) (simp_all add: ts)
    show ?thesis
    proof (cases k)
      case 0
      with kS have "take (Suc k) S = [S ! 0]"
        by (cases S) simp_all
      with 0 here kS show ?thesis by (simp add: cum)
    next
      case (Suc j)
      with kS have jS: "j < length S" by simp
      have "A (S ! j) = sum_list (map g (take (Suc j) S))"
        using jS prev kS Suc by (intro take_sum) (simp_all add: ts)
      moreover have "take (Suc k) S = take k S @ [S ! k]"
        using kS by (rule take_Suc_conv_app_nth)
      ultimately show ?thesis
        using Suc here kS jS by (simp add: cum)
    qed
  qed
  from c1 len lenS c3 c4 c5 c6 c7 c8 show ?thesis by (intro exI [of _ pts]) simp
qed

text \<open>
  Two closed trades with the same timestamp and the profits 10 and 20: both points of
  the curve carry 30. The first value is not the first profit, and the two values are
  not distinct.
\<close>

theorem equity_curve_ties_counterexample:
  "map timestamp tie_trades = [5, 5] \<and> map profit tie_trades = [Some 10, Some 20] \<and>
   get_equity_curve \<lparr>trades = Some tie_trades, market_sentiment = Some []\<rparr> =
     Inr [\<lparr>timestamp_ec = 5, cumulative_profit = Some 30\<rparr>,
          \<lparr>timestamp_ec = 5, cumulative_profit = Some 30\<rparr>]"
  by (simp add: tie_trades_def trade_ex_def get_equity_curve_def read_sql_query_def
      get_equity_curve_query_def sum_over_order_by_def order_by_def sql_sum_def non_null_def)

theorem equity_curve_range_sums_witness:
  "get_equity_curve \<lparr>trades = Some scenario_trades, market_sentiment = Some []\<rparr> =
     Inr [\<lparr>timestamp_ec = 1, cumulative_profit = Some 10\<rparr>,
          \<lparr>timestamp_ec = 2, cumulative_profit = Some 5\<rparr>,
          \<lparr>timestamp_ec = 3, cumulative_profit = Some 25\<rparr>]"
proof -
  let ?conn = "\<lparr>trades = Some scenario_trades, market_sentiment = Some []\<rparr>"
  let ?cls = "filter (\<lambda>r. profit r \<noteq> None) scenario_trades"
  have cls: "?cls = take 3 scenario_trades"
    by (simp add: scenario_trades_def trade_ex_def)
  have S: "sort_key timestamp ?cls = take 3 scenario_trades"
    unfolding cls by (simp add: scenario_trades_def trade_ex_def)
  from equity_curve_range_sums [of ?conn scenario_trades ?cls "sort_key timestamp ?cls"]
  obtain pts where pts: "get_equity_curve ?conn = Inr pts" "length pts = length ?cls"
    "map timestamp_ec pts = map timestamp (sort_key timestamp ?cls)"
    "\<forall>k. k < length pts \<longrightarrow>
        cumulative_profit (pts ! k) =
          Some (sum_list (map (\<lambda>r. the (profit r)) (filter (\<lambda>r. timestamp r \<le> timestamp_ec (pts ! k)) ?cls)))"
    by auto
  from pts(2) have len: "length pts = 3" unfolding cls by (simp add: scenario_trades_def)
  then obtain a b c where abc: "pts = [a, b, c]"
    by (metis (no_types, opaque_lifting) length_0_conv length_Suc_conv numeral_3_eq_3)
  from pts(3) have t: "timestamp_ec a = 1" "timestamp_ec b = 2" "timestamp_ec c = 3"
    unfolding S abc by (simp_all add: scenario_trades_def trade_ex_def)
  from pts(4) [rule_format, of 0] have "cumulative_profit a = Some 10"
    unfolding abc cls using t by (simp add: scenario_trades_def trade_ex_def)
  moreover from pts(4) [rule_format, of 1] have "cumulative_profit b = Some 5"
    unfolding abc cls using t by (simp add: scenario_trades_def trade_ex_def)
  moreover from pts(4) [rule_format, of 2] have "cumulative_profit c = Some 25"
    unfolding abc cls using t by (simp add: scenario_trades_def trade_ex_def)
  ultimately show ?thesis
    using pts(1) abc t by simp
qed

subsection \<open>Agent performance\<close>

lemma non_null_simps:
  "non_null [] = []"
  "non_null (None # vs) = non_null vs"
  "non_null (Some x # vs) = x # non_null vs"
  by (simp_all add: non_null_def)

lemma group_by_keys:
  "map fst (group_by key rows) = remdups (sort (map key rows))"
  by (simp add: group_by_def comp_def)

lemma group_by_member:
  "(k, g) \<in> set (group_by key rows) \<longleftrightarrow> k \<in> key ` set rows \<and> g = filter (\<lambda>r. key r = k) rows"
  by (auto simp add: group_by_def)

lemma non_null_map_const_Some: "non_null (map (\<lambda>r. Some (c r)) rs) = map c rs"
  by (induction rs) (simp_all add: non_null_def)

lemma non_null_column:
  "non_null (map v rs) = map (\<lambda>r. the (v r)) (filter (\<lambda>r. v r \<noteq> None) rs)"
  by (induction rs) (simp_all add: non_null_def)

lemma sum_list_indicator:
  "sum_list (map (\<lambda>r. if P r then (1::int) else 0) rs) = int (length (filter P rs))"
  by (induction rs) simp_all

lemma agent_perf_group:
  fixes g :: "'t trade list"
  assumes ne: "g \<noteq> []" and cl: "\<forall>t\<in>set g. profit t \<noteq> None"
  shows "sql_sum (map (\<lambda>r. Some (if sql_gt (profit r) 0 then 1 else 0)) g) =
           Some (int (length (filter (\<lambda>t. 0 < the (profit t)) g)))"
    and "sql_sum (map profit g) = Some (sum_list (map (\<lambda>t. the (profit t)) g))"
    and "sql_avg (map profit g) = Some (sum_list (map (\<lambda>t. the (profit t)) g) / real (length g))"
proof -
  have gt: "sql_gt (profit t) 0 \<longleftrightarrow> 0 < the (profit t)" if "t \<in> set g" for t
    using that cl by (auto simp add: sql_gt_def)
  have "sum_list (map (\<lambda>r. if sql_gt (profit r) 0 then (1::int) else 0) g) =
        int (length (filter (\<lambda>r. sql_gt (profit r) 0) g))"
    by (rule sum_list_indicator)
  also have "filter (\<lambda>r. sql_gt (profit r) 0) g = filter (\<lambda>t. 0 < the (profit t)) g"
    by (rule filter_cong) (simp_all add: gt)
  finally show "sql_sum (map (\<lambda>r. Some (if sql_gt (profit r) 0 then 1 else 0)) g) =
           Some (int (length (filter (\<lambda>t. 0 < the (profit t)) g)))"
    using ne by (simp add: sql_sum_def non_null_map_const_Some)
  have all: "filter (\<lambda>r. profit r \<noteq> None) g = g"
    using cl by (simp add: filter_id_conv)
  have nn: "non_null (map profit g) = map (\<lambda>t. the (profit t)) g"
    by (simp only: non_null_column all)
  show "sql_sum (map profit g) = Some (sum_list (map (\<lambda>t. the (profit t)) g))"
    using ne by (simp add: sql_sum_def nn)
  show "sql_avg (map profit g) = Some (sum_list (map (\<lambda>t. the (profit t)) g) / real (length g))"
    using ne by (simp add: sql_avg_def nn)
qed

lemma sql_avg_column:
  "sql_avg (map v g) =
     (let cs = filter (\<lambda>t. v t \<noteq> None) g
      in if cs = [] then None else Some (sum_list (map (\<lambda>t. the (v t)) cs) / real (length cs)))"
  by (simp add: sql_avg_def non_null_column Let_def)

text \<open>
  C2. For every store whose \<^verbatim>\<open>trades\<close> table can be read, \<^verbatim>\<open>load_agent_performance\<close>
  returns exactly one row for each agent name that occurs among the trades whose profit
  is not NULL. The figures of a row are taken over the trades \<open>g\<close> of that agent with a
  profit: their number; as wins, the number of them with a profit strictly above 0;
  the sum of their profits; the mean of their profits; and the mean of their
  confidences that are not NULL (NULL when there is none). Removing from the table
  every trade whose profit is NULL leaves the result the same.
\<close>

theorem agent_performance_aggregates:
  fixes conn :: "'t database"
  assumes tbl: "trades conn = Some tbl"
  shows "\<exists>rows. load_agent_performance conn = Inr rows \<and>
     distinct (map agent_name_ap rows) \<and>
     set (map agent_name_ap rows) = agent_name ` {t \<in> set tbl. profit t \<noteq> None} \<and>
     (\<forall>r\<in>set rows.
        \<exists>g. g = filter (\<lambda>t. profit t \<noteq> None \<and> agent_name t = agent_name_ap r) tbl \<and> g \<noteq> [] \<and>
          total_trades r = int (length g) \<and>
          wins r = Some (int (length (filter (\<lambda>t. 0 < the (profit t)) g))) \<and>
          total_profit r = Some (sum_list (map (\<lambda>t. the (profit t)) g)) \<and>
          avg_profit r = Some (sum_list (map (\<lambda>t. the (profit t)) g) / real (length g)) \<and>
          avg_confidence r =
            (let cs = filter (\<lambda>t. confidence t \<noteq> None) g
             in if cs = [] then None
                else Some (sum_list (map (\<lambda>t. the (confidence t)) cs) / real (length cs)))) \<and>
     load_agent_performance (conn\<lparr>trades := Some (filter (\<lambda>t. profit t \<noteq> None) tbl)\<rparr>) = Inr rows"
proof -
  define cl where "cl = filter (\<lambda>t. profit t \<noteq> None) tbl"
  define row :: "string option \<times> 't trade list \<Rightarrow> agent_perf_row" where
    "row = (\<lambda>(k, g).
            \<lparr>agent_name_ap = k,
             total_trades = int (length g),
             wins = sql_sum (map (\<lambda>r. Some (if sql_gt (profit r) 0 then 1 else 0)) g),
             total_profit = sql_sum (map profit g),
             avg_profit = sql_avg (map profit g),
             avg_confidence = sql_avg (map confidence g)\<rparr>)"
  define rows where "rows = map row (group_by agent_name cl)"
  have q: "load_agent_performance_query tbl = rows"
    by (simp add: load_agent_performance_query_def rows_def row_def cl_def)
  have names: "map agent_name_ap rows = map fst (group_by agent_name cl)"
    by (simp add: rows_def row_def comp_def case_prod_unfold)
  have c1: "load_agent_performance conn = Inr rows"
    by (simp add: load_agent_performance_def read_sql_query_def tbl q)
  have c2: "distinct (map agent_name_ap rows)"
    unfolding names group_by_keys by simp
  have c3: "set (map agent_name_ap rows) = agent_name ` {t \<in> set tbl. profit t \<noteq> None}"
    unfolding names group_by_keys by (simp add: cl_def)
  have c4: "\<exists>g. g = filter (\<lambda>t. profit t \<noteq> None \<and> agent_name t = agent_name_ap r) tbl \<and> g \<noteq> [] \<and>
          total_trades r = int (length g) \<and>
          wins r = Some (int (length (filter (\<lambda>t. 0 < the (profit t)) g))) \<and>
          total_profit r = Some (sum_list (map (\<lambda>t. the (profit t)) g)) \<and>
          avg_profit r = Some (sum_list (map (\<lambda>t. the (profit t)) g) / real (length g)) \<and>
          avg_confidence r =
            (let cs = filter (\<lambda>t. confidence t \<noteq> None) g
             in if cs = [] then None
                else Some (sum_list (map (\<lambda>t. the (confidence t)) cs) / real (length cs)))"
    if r: "r \<in> set rows" for r
  proof -
    from r obtain k g where kg: "(k, g) \<in> set (group_by agent_name cl)" and rdef: "r = row (k, g)"
      by (auto simp add: rows_def)
    from kg have k: "k \<in> agent_name ` set cl" and g: "g = filter (\<lambda>t. agent_name t = k) cl"
      by (simp_all add: group_by_member)
    have name: "agent_name_ap r = k" by (simp add: rdef row_def)
    have g': "g = filter (\<lambda>t. profit t \<noteq> None \<and> agent_name t = agent_name_ap r) tbl"
      by (simp add: g cl_def name)
    from k obtain t where "t \<in> set cl" "agent_name t = k" by auto
    then have "t \<in> set g" by (simp add: g)
    then have ne: "g \<noteq> []" by (metis empty_iff list.set(1))
    have closed: "\<forall>t\<in>set g. profit t \<noteq> None" by (simp add: g cl_def)
    note agg = agent_perf_group [OF ne closed]
    have "total_trades r = int (length g)" by (simp add: rdef row_def)
    moreover have "wins r = Some (int (length (filter (\<lambda>t. 0 < the (profit t)) g)))"
      using agg(1) by (simp add: rdef row_def)
    moreover have "total_profit r = Some (sum_list (map (\<lambda>t. the (profit t)) g))"
      using agg(2) by (simp add: rdef row_def)
    moreover have "avg_profit r = Some (sum_list (map (\<lambda>t. the (profit t)) g) / real (length g))"
      using agg(3) by (simp add: rdef row_def)
    moreover have "avg_confidence r =
            (let cs = filter (\<lambda>t. confidence t \<noteq> None) g
             in if cs = [] then None
                else Some (sum_list (map (\<lambda>t. the (confidence t)) cs) / real (length cs)))"
      using sql_avg_column [of confidence g] by (simp add: rdef row_def)
    ultimately show ?thesis using g' ne by blast
  qed
  have "load_agent_performance_query (filter (\<lambda>t. profit t \<noteq> None) tbl) = rows"
    by (simp add: load_agent_performance_query_def rows_def row_def cl_def)
  then have c5: "load_agent_performance (conn\<lparr>trades := Some (filter (\<lambda>t. profit t \<noteq> None) tbl)\<rparr>) = Inr rows"
    by (simp add: load_agent_performance_def read_sql_query_def)
  from c1 c2 c3 c4 c5 show ?thesis by blast
qed

theorem agent_performance_aggregates_witness:
  "load_agent_performance \<lparr>trades = Some scenario_trades, market_sentiment = Some []\<rparr> =
     Inr [\<lparr>agent_name_ap = Some ''alpha'', total_trades = 2, wins = Some 1, total_profit = Some 5,
            avg_profit = Some (5 / 2), avg_confidence = Some (3 / 4)\<rparr>,
          \<lparr>agent_name_ap = Some ''beta'', total_trades = 1, wins = Some 1, total_profit = Some 20,
            avg_profit = Some 20, avg_confidence = Some (3 / 4)\<rparr>] \<and>
   (\<exists>rows. load_agent_performance \<lparr>trades = Some scenario_trades, market_sentiment = Some []\<rparr> = Inr rows \<and>
      distinct (map agent_name_ap rows))"
proof -
  let ?conn = "\<lparr>trades = Some scenario_trades, market_sentiment = Some []\<rparr> :: nat database"
  have "trades ?conn = Some scenario_trades" by simp
  from agent_performance_aggregates [OF this]
  have b: "\<exists>rows. load_agent_performance ?conn = Inr rows \<and> distinct (map agent_name_ap rows)"
    by blast
  have a: "load_agent_performance ?conn =
     Inr [\<lparr>agent_name_ap = Some ''alpha'', total_trades = 2, wins = Some 1, total_profit = Some 5,
            avg_profit = Some (5 / 2), avg_confidence = Some (3 / 4)\<rparr>,
          \<lparr>agent_name_ap = Some ''beta'', total_trades = 1, wins = Some 1, total_profit = Some 20,
            avg_profit = Some 20, avg_confidence = Some (3 / 4)\<rparr>]"
    by (simp add: load_agent_performance_def read_sql_query_def load_agent_performance_query_def
        group_by_def scenario_trades_def trade_ex_def sql_sum_def sql_avg_def sql_gt_def non_null_simps)
  from a b show ?thesis by blast
qed

subsection \<open>The leaderboard\<close>

lemma collect_map_Inr:
  "\<forall>x\<in>set xs. f x = Inr (h x) \<Longrightarrow> collect (map f xs) = Inr (map h xs)"
  by (induction xs) simp_all

lemma sorted_desc_unique:
  fixes key :: "'a \<Rightarrow> 'k::linorder"
  assumes perm: "mset ys = mset xs" and srt: "sorted (rev (map key ys))"
    and dist: "distinct (map key xs)"
  shows "ys = rev (sort_key key xs)"
proof -
  have "mset (map key ys) = mset (map key xs)" using perm by simp
  then have dy: "distinct (map key ys)" using dist by (metis mset_eq_imp_distinct_iff)
  have sets: "set ys = set xs" using perm by (metis set_mset_mset)
  have "map key (rev ys) = map key (sort_key key xs)"
  proof (rule sorted_distinct_set_unique)
    show "sorted (map key (rev ys))" using srt by (simp add: rev_map)
    show "distinct (map key (rev ys))" using dy by (simp add: rev_map [symmetric])
    show "sorted (map key (sort_key key xs))" by simp
    show "distinct (map key (sort_key key xs))" using dist by (simp add: distinct_map)
    show "set (map key (rev ys)) = set (map key (sort_key key xs))" using sets by simp
  qed
  moreover have "inj_on key (set (rev ys) \<union> set (sort_key key xs))"
    using dist sets by (simp add: distinct_map)
  ultimately have "rev ys = sort_key key xs"
    by (simp add: inj_on_map_eq_map)
  then show ?thesis by (metis rev_rev_ident)
qed

lemma agent_perf_rows_positive:
  assumes r: "r \<in> set (load_agent_performance_query tbl)"
  shows "0 < total_trades r \<and> (\<exists>w. wins r = Some w)"
proof -
  let ?cl = "filter (\<lambda>t. profit t \<noteq> None) tbl"
  from r obtain k g where kg: "(k, g) \<in> set (group_by agent_name ?cl)"
    and tot: "total_trades r = int (length g)"
    and w: "wins r = sql_sum (map (\<lambda>r. Some (if sql_gt (profit r) 0 then 1 else 0)) g)"
    by (auto simp add: load_agent_performance_query_def)
  from kg have k: "k \<in> agent_name ` set ?cl" and g: "g = filter (\<lambda>t. agent_name t = k) ?cl"
    by (simp_all add: group_by_member)
  from k obtain t where "t \<in> set ?cl" "agent_name t = k" by auto
  then have "t \<in> set g" by (simp add: g)
  then have ne: "g \<noteq> []" by (metis empty_iff list.set(1))
  then show ?thesis
    by (simp add: tot w sql_sum_def non_null_map_const_Some)
qed

lemma add_win_rate_query_row:
  assumes r: "r \<in> set (load_agent_performance_query tbl)"
  shows "add_win_rate r =
     Inr \<lparr>agent_name_ap = agent_name_ap r, total_trades = total_trades r, wins = wins r,
          total_profit = total_profit r, avg_profit = avg_profit r,
          avg_confidence = avg_confidence r,
          win_rate = real_of_int (the (wins r)) / real_of_int (total_trades r) * 100\<rparr>"
  using agent_perf_rows_positive [OF r]
  by (auto simp add: add_win_rate_def series_div_def fillna_def)

text \<open>
  C3, as the code has it. For every result of \<^verbatim>\<open>load_agent_performance\<close> that is not
  empty, and whatever admissible sorting function \<^verbatim>\<open>sort_values\<close> is, the leaderboard
  shows exactly the aggregated rows, each with its win rate (wins over trades, times
  100; the number of trades is never 0), in descending order of total profit. The
  source gives \<^verbatim>\<open>sort_values\<close> one key, \<^verbatim>\<open>total_profit\<close>, and no second one: the ranking
  is a function of the aggregated rows when their total profits are pairwise
  different, and nothing is said of the order of agents with equal total profit.
\<close>

theorem leaderboard_sorted_by_total_profit:
  fixes tbl :: "'t trade list"
  assumes spec: "sort_values_spec sort_values"
    and ap: "agent_perf = load_agent_performance_query tbl"
    and ne: "agent_perf \<noteq> []"
  shows "\<exists>rows. leaderboard sort_values agent_perf = Inr (Shown rows) \<and>
     mset (map agent_perf_row.truncate rows) = mset agent_perf \<and>
     (\<forall>i j. i < j \<and> j < length rows \<longrightarrow> total_profit (rows ! j) \<le> total_profit (rows ! i)) \<and>
     (\<forall>r\<in>set rows. 0 < total_trades r \<and>
        win_rate r = real_of_int (the (wins r)) / real_of_int (total_trades r) * 100) \<and>
     (distinct (map total_profit agent_perf) \<longrightarrow>
        map agent_perf_row.truncate rows = rev (sort_key total_profit agent_perf))"
proof -
  define ext :: "agent_perf_row \<Rightarrow> leaderboard_row" where
    "ext r = \<lparr>agent_name_ap = agent_name_ap r, total_trades = total_trades r, wins = wins r,
          total_profit = total_profit r, avg_profit = avg_profit r,
          avg_confidence = avg_confidence r,
          win_rate = real_of_int (the (wins r)) / real_of_int (total_trades r) * 100\<rparr>" for r
  define rows where "rows = sort_values total_profit False (map ext agent_perf)"
  have tr: "agent_perf_row.truncate (ext r) = r" for r
    by (simp add: ext_def agent_perf_row.truncate_def)
  have "\<forall>r\<in>set agent_perf. add_win_rate r = Inr (ext r)"
    using add_win_rate_query_row [of _ tbl] by (simp add: ap ext_def)
  then have "collect (map add_win_rate agent_perf) = Inr (map ext agent_perf)"
    by (rule collect_map_Inr)
  then have c1: "leaderboard sort_values agent_perf = Inr (Shown rows)"
    using ne by (simp add: leaderboard_def rows_def)
  from spec have "mset (sort_values total_profit False (map ext agent_perf)) = mset (map ext agent_perf) \<and>
      sorted (map total_profit (if False then sort_values total_profit False (map ext agent_perf)
        else rev (sort_values total_profit False (map ext agent_perf))))"
    unfolding sort_values_spec_def by blast
  then have perm: "mset rows = mset (map ext agent_perf)"
    and srt: "sorted (map total_profit (rev rows))"
    unfolding rows_def by simp_all
  have "mset (map agent_perf_row.truncate rows) = image_mset agent_perf_row.truncate (mset (map ext agent_perf))"
    using perm by (metis mset_map)
  then have c2: "mset (map agent_perf_row.truncate rows) = mset agent_perf"
    by (simp add: tr image_mset.compositionality comp_def)
  have c3: "total_profit (rows ! j) \<le> total_profit (rows ! i)" if "i < j" "j < length rows" for i j
  proof -
    from srt have "sorted (rev (map total_profit rows))" by (simp add: rev_map)
    then have "map total_profit rows ! j \<le> map total_profit rows ! i"
      using that by (simp add: sorted_rev_iff_nth_mono del: nth_map)
    with that show ?thesis by simp
  qed
  have c4: "0 < total_trades r \<and>
        win_rate r = real_of_int (the (wins r)) / real_of_int (total_trades r) * 100"
    if "r \<in> set rows" for r
  proof -
    from that perm have "r \<in> set (map ext agent_perf)" by (metis set_mset_mset)
    then obtain a where a: "a \<in> set agent_perf" "r = ext a" by auto
    with agent_perf_rows_positive [of a tbl] show ?thesis by (simp add: ap ext_def)
  qed
  have c5: "map agent_perf_row.truncate rows = rev (sort_key total_profit agent_perf)"
    if dist: "distinct (map total_profit agent_perf)"
  proof (rule sorted_desc_unique [OF c2 _ dist])
    have "total_profit \<circ> agent_perf_row.truncate = (total_profit :: leaderboard_row \<Rightarrow> real option)"
      by (simp add: fun_eq_iff agent_perf_row.truncate_def)
    with srt show "sorted (rev (map total_profit (map agent_perf_row.truncate rows)))"
      by (simp add: rev_map)
  qed
  from c1 c2 c3 c4 c5 show ?thesis by blast
qed

text \<open>
  Four agents whose total profits are 10, 10, 20 and 20 in the order of the
  aggregated rows, which is the order of their names. \<open>sort_values_quicksort\<close>, the
  library's descending sort over the four-key network, meets \<open>sort_values_spec\<close> and
  ranks \<^verbatim>\<open>agent_d\<close> before \<^verbatim>\<open>agent_c\<close> and \<^verbatim>\<open>agent_b\<close> before \<^verbatim>\<open>agent_a\<close>: within both
  pairs of equal totals the names are descending, not ascending.
\<close>

theorem leaderboard_tie_counterexample:
  "sort_values_spec (sort_values_quicksort :: (leaderboard_row \<Rightarrow> real option) \<Rightarrow> bool \<Rightarrow> leaderboard_row list \<Rightarrow> leaderboard_row list) \<and>
   map (\<lambda>r. (agent_name_ap r, total_profit r)) (load_agent_performance_query four_agents_trades) =
     [(Some ''agent_a'', Some 10), (Some ''agent_b'', Some 10),
      (Some ''agent_c'', Some 20), (Some ''agent_d'', Some 20)] \<and>
   leaderboard sort_values_quicksort (load_agent_performance_query four_agents_trades) =
     Inr (Shown
       [\<lparr>agent_name_ap = Some ''agent_d'', total_trades = 1, wins = Some 1, total_profit = Some 20,
          avg_profit = Some 20, avg_confidence = Some (3 / 4), win_rate = 100\<rparr>,
        \<lparr>agent_name_ap = Some ''agent_c'', total_trades = 1, wins = Some 1, total_profit = Some 20,
          avg_profit = Some 20, avg_confidence = Some (3 / 4), win_rate = 100\<rparr>,
        \<lparr>agent_name_ap = Some ''agent_b'', total_trades = 1, wins = Some 1, total_profit = Some 10,
          avg_profit = Some 10, avg_confidence = Some (3 / 4), win_rate = 100\<rparr>,
        \<lparr>agent_name_ap = Some ''agent_a'', total_trades = 1, wins = Some 1, total_profit = Some 10,
          avg_profit = Some 10, avg_confidence = Some (3 / 4), win_rate = 100\<rparr>])"
proof -
  have q: "load_agent_performance_query four_agents_trades =
     [\<lparr>agent_name_ap = Some ''agent_a'', total_trades = 1, wins = Some 1, total_profit = Some 10,
          avg_profit = Some 10, avg_confidence = Some (3 / 4)\<rparr>,
      \<lparr>agent_name_ap = Some ''agent_b'', total_trades = 1, wins = Some 1, total_profit = Some 10,
          avg_profit = Some 10, avg_confidence = Some (3 / 4)\<rparr>,
      \<lparr>agent_name_ap = Some ''agent_c'', total_trades = 1, wins = Some 1, total_profit = Some 20,
          avg_profit = Some 20, avg_confidence = Some (3 / 4)\<rparr>,
      \<lparr>agent_name_ap = Some ''agent_d'', total_trades = 1, wins = Some 1, total_profit = Some 20,
          avg_profit = Some 20, avg_confidence = Some (3 / 4)\<rparr>]"
    by (simp add: load_agent_performance_query_def group_by_def four_agents_trades_def trade_ex_def
        sql_sum_def sql_avg_def sql_gt_def non_null_simps)
  show ?thesis
    unfolding q using sort_values_quicksort_spec
    by (simp add: leaderboard_def add_win_rate_def series_div_def fillna_def
        sort_values_quicksort_def nargsort_def argsort_network_def cmp_merge_def)
qed

text \<open>
  The same sort leaves two agents of equal total in the order of the aggregated rows,
  alpha before beta: what becomes of equal totals depends on the rows around them.
\<close>

lemma leaderboard_two_tied_agents:
  "(case leaderboard sort_values_quicksort (load_agent_performance_query tied_agents_trades) of
      Inr (Shown rows) \<Rightarrow> map (\<lambda>r. (agent_name_ap r, total_profit r)) rows
    | _ \<Rightarrow> []) =
   [(Some ''alpha'', Some 10), (Some ''beta'', Some 10)]"
proof -
  have q: "load_agent_performance_query tied_agents_trades =
     [\<lparr>agent_name_ap = Some ''alpha'', total_trades = 1, wins = Some 1, total_profit = Some 10,
          avg_profit = Some 10, avg_confidence = Some (3 / 4)\<rparr>,
      \<lparr>agent_name_ap = Some ''beta'', total_trades = 1, wins = Some 1, total_profit = Some 10,
          avg_profit = Some 10, avg_confidence = Some (3 / 4)\<rparr>]"
    by (simp add: load_agent_performance_query_def group_by_def tied_agents_trades_def trade_ex_def
        sql_sum_def sql_avg_def sql_gt_def non_null_simps)
  show ?thesis
    unfolding q
    by (simp add: leaderboard_def add_win_rate_def series_div_def fillna_def
        sort_values_quicksort_def nargsort_def argsort_network_def)
qed

theorem leaderboard_sorted_by_total_profit_witness:
  "leaderboard sort_values_unstable (load_agent_performance_query scenario_trades) =
     Inr (Shown
       [\<lparr>agent_name_ap = Some ''beta'', total_trades = 1, wins = Some 1, total_profit = Some 20,
          avg_profit = Some 20, avg_confidence = Some (3 / 4), win_rate = 100\<rparr>,
        \<lparr>agent_name_ap = Some ''alpha'', total_trades = 2, wins = Some 1, total_profit = Some 5,
          avg_profit = Some (5 / 2), avg_confidence = Some (3 / 4), win_rate = 50\<rparr>])"
proof -
  have q: "load_agent_performance_query scenario_trades =
     [\<lparr>agent_name_ap = Some ''alpha'', total_trades = 2, wins = Some 1, total_profit = Some 5,
            avg_profit = Some (5 / 2), avg_confidence = Some (3 / 4)\<rparr>,
          \<lparr>agent_name_ap = Some ''beta'', total_trades = 1, wins = Some 1, total_profit = Some 20,
            avg_profit = Some 20, avg_confidence = Some (3 / 4)\<rparr>]"
    by (simp add: load_agent_performance_query_def group_by_def scenario_trades_def trade_ex_def
        sql_sum_def sql_avg_def sql_gt_def non_null_simps)
  have ne: "load_agent_performance_query scenario_trades \<noteq> []" by (simp add: q)
  have dist: "distinct (map total_profit (load_agent_performance_query scenario_trades))"
    by (simp add: q)
  from leaderboard_sorted_by_total_profit [OF sort_values_unstable_spec refl ne]
  obtain rows where rows: "leaderboard sort_values_unstable (load_agent_performance_query scenario_trades) = Inr (Shown rows)"
    "distinct (map total_profit (load_agent_performance_query scenario_trades)) \<longrightarrow>
        map agent_perf_row.truncate rows = rev (sort_key total_profit (load_agent_performance_query scenario_trades))"
    by blast
  from rows(2) dist have "map agent_name_ap rows = [Some ''beta'', Some ''alpha'']"
    unfolding q by (auto simp add: agent_perf_row.truncate_def)
  moreover have "leaderboard sort_values_unstable (load_agent_performance_query scenario_trades) =
     Inr (Shown
       [\<lparr>agent_name_ap = Some ''beta'', total_trades = 1, wins = Some 1, total_profit = Some 20,
          avg_profit = Some 20, avg_confidence = Some (3 / 4), win_rate = 100\<rparr>,
        \<lparr>agent_name_ap = Some ''alpha'', total_trades = 2, wins = Some 1, total_profit = Some 5,
          avg_profit = Some (5 / 2), avg_confidence = Some (3 / 4), win_rate = 50\<rparr>])"
    unfolding q
    by (simp add: leaderboard_def add_win_rate_def series_div_def fillna_def sort_values_unstable_def)
  ultimately show ?thesis using rows(1) by simp
qed

subsection \<open>The page on freshly loaded frames\<close>

lemma win_rate_hl_value:
  "win_rate_hl agent_perf n =
     Inr (if n = 0 then 0 else real_of_int (pd_sum (map wins agent_perf)) / real n * 100)"
  by (simp add: win_rate_hl_def true_div_def pd_sum_def non_null_simps)

lemma total_trades_hl_count:
  "total_trades_hl trades_df =
     length (filter (\<lambda>r. action r = Some ''BUY'' \<or> action r = Some ''SELL'') trades_df)"
proof -
  have "isin [''BUY'', ''SELL''] v \<longleftrightarrow> v = Some ''BUY'' \<or> v = Some ''SELL''" for v
    by (cases v) (auto simp add: isin_def)
  then show ?thesis by (simp add: total_trades_hl_def)
qed

lemma leaderboard_query:
  "\<exists>lb. leaderboard sort_lb (load_agent_performance_query tbl) = Inr lb"
proof -
  let ?h = "\<lambda>r. \<lparr>agent_name_ap = agent_name_ap r, total_trades = total_trades r, wins = wins r,
          total_profit = total_profit r, avg_profit = avg_profit r,
          avg_confidence = avg_confidence r,
          win_rate = real_of_int (the (wins r)) / real_of_int (total_trades r) * 100\<rparr>"
  have "\<forall>r\<in>set (load_agent_performance_query tbl). add_win_rate r = Inr (?h r)"
    by (simp add: add_win_rate_query_row)
  then have "collect (map add_win_rate (load_agent_performance_query tbl)) =
      Inr (map ?h (load_agent_performance_query tbl))"
    by (rule collect_map_Inr)
  then show ?thesis by (simp add: leaderboard_def)
qed

lemma main_dashboard_page:
  assumes "main_dashboard sort_lb sort_sent selected_agent trades_df agent_perf sentiment_df equity_df = Inr pg"
  shows "metric_win_rate pg =
           (if total_trades_hl trades_df = 0 then 0
            else real_of_int (pd_sum (map wins agent_perf)) / real (total_trades_hl trades_df) * 100)"
    and "logs pg = decision_logs (filtered_trades selected_agent trades_df)"
    and "metric_total_trades pg = total_trades_hl trades_df"
    and "metric_total_profit pg = total_profit_hl trades_df"
  using assms
  by (auto simp add: main_dashboard_def win_rate_hl_value decision_logs_drawn_def
      split: sum.splits if_splits)

lemma main_dashboard_query:
  "\<exists>lb. leaderboard sort_lb (load_agent_performance_query tbl) = Inr lb \<and>
     main_dashboard sort_lb sort_sent selected_agent trades_df (load_agent_performance_query tbl)
       sentiment_df equity_df =
     (case trade_history trades_df (filtered_trades selected_agent trades_df) of
        Inl e \<Rightarrow> Inl e
      | Inr th \<Rightarrow>
          (case decision_logs_drawn trades_df (filtered_trades selected_agent trades_df) of
             Inl e \<Rightarrow> Inl e
           | Inr lg \<Rightarrow>
               Inr \<lparr>metric_total_trades = total_trades_hl trades_df,
                    metric_total_profit = total_profit_hl trades_df,
                    metric_win_rate =
                      (if total_trades_hl trades_df = 0 then 0
                       else real_of_int (pd_sum (map wins (load_agent_performance_query tbl))) /
                            real (total_trades_hl trades_df) * 100),
                    metric_sentiment = latest_sentiment_hl sentiment_df,
                    chart_equity = equity_chart equity_df,
                    chart_leaderboard = lb,
                    chart_sentiment_score = sentiment_score_chart sort_sent sentiment_df,
                    chart_sentiment_signal = sentiment_signal_chart sort_sent sentiment_df,
                    table_trades = th,
                    logs = lg\<rparr>))"
proof -
  from leaderboard_query obtain lb where "leaderboard sort_lb (load_agent_performance_query tbl) = Inr lb"
    by blast
  then show ?thesis
    by (simp add: main_dashboard_def win_rate_hl_value)
qed

lemma main_dashboard_no_zero_division:
  "main_dashboard sort_lb sort_sent selected_agent trades_df (load_agent_performance_query tbl)
     sentiment_df equity_df \<noteq> Inl ZeroDivisionError"
proof
  let ?th = "trade_history trades_df (filtered_trades selected_agent trades_df)"
  let ?lg = "decision_logs_drawn trades_df (filtered_trades selected_agent trades_df)"
  assume z: "main_dashboard sort_lb sort_sent selected_agent trades_df (load_agent_performance_query tbl)
     sentiment_df equity_df = Inl ZeroDivisionError"
  have th: "?th \<noteq> Inl ZeroDivisionError" by (simp add: trade_history_def)
  have lg: "?lg \<noteq> Inl ZeroDivisionError" by (simp add: decision_logs_drawn_def)
  from main_dashboard_query [of sort_lb tbl sort_sent selected_agent trades_df sentiment_df equity_df] z
  have c: "(case ?th of Inl e \<Rightarrow> Inl e
            | Inr t \<Rightarrow> (case ?lg of Inl e \<Rightarrow> Inl e | Inr l \<Rightarrow> Inr (undefined t l))) =
           (Inl ZeroDivisionError :: error + unit)"
    by (auto split: sum.splits)
  show False
  proof (cases ?th)
    case (Inl e)
    with c th show False by simp
  next
    case (Inr t)
    with c lg show False by (cases ?lg) simp_all
  qed
qed

lemma load_data_fresh:
  assumes "trades conn = Some tbl" and "market_sentiment conn = Some st"
  shows "fst (load_data empty_cache now conn) =
     Inr (load_trades_query tbl, load_agent_performance_query tbl,
          load_sentiment_history_query st, get_equity_curve_query tbl)"
  using assms
  by (simp add: load_data_def cache_data_def empty_cache_def load_trades_def
      load_agent_performance_def load_sentiment_history_def get_equity_curve_def read_sql_query_def)

lemma dashboard_fresh:
  assumes tbl: "trades conn = Some tbl" and st: "market_sentiment conn = Some st"
  shows "fst (dashboard sort_lb sort_sent False selected_agent empty_cache now conn) =
     (case main_dashboard sort_lb sort_sent selected_agent (load_trades_query tbl)
             (load_agent_performance_query tbl) (load_sentiment_history_query st)
             (get_equity_curve_query tbl) of
        Inl e \<Rightarrow> Raised e
      | Inr pg \<Rightarrow> Rendered pg)"
proof -
  obtain c' where ld: "load_data empty_cache now conn =
     (Inr (load_trades_query tbl, load_agent_performance_query tbl,
          load_sentiment_history_query st, get_equity_curve_query tbl), c')"
    using load_data_fresh [OF tbl st, of now] by (cases "load_data empty_cache now conn") simp
  have "agent_options conn = Inr (''Semua'' # agent_list_query tbl)"
    by (simp add: agent_options_def read_sql_query_def tbl)
  then show ?thesis
    by (simp add: dashboard_def ld split: sum.splits)
qed

lemma dashboard_fresh_rendered:
  assumes "trades conn = Some tbl" and "market_sentiment conn = Some st"
    and "fst (dashboard sort_lb sort_sent False selected_agent empty_cache now conn) = Rendered pg"
  shows "main_dashboard sort_lb sort_sent selected_agent (load_trades_query tbl)
             (load_agent_performance_query tbl) (load_sentiment_history_query st)
             (get_equity_curve_query tbl) = Inr pg"
  using assms(3) unfolding dashboard_fresh [OF assms(1,2)]
  by (simp split: sum.splits)

lemma not_object_dtype:
  "df \<noteq> [] \<Longrightarrow> \<forall>r\<in>set df. col r \<noteq> None \<Longrightarrow> \<not> object_dtype col df"
  by (cases df) (auto simp add: object_dtype_def)

lemma dashboard_fresh_draws:
  assumes tbl: "trades conn = Some tbl" and st: "market_sentiment conn = Some st"
    and dt: "\<not> object_dtype entry (load_trades_query tbl)" "\<not> object_dtype sl (load_trades_query tbl)"
      "\<not> object_dtype tp (load_trades_query tbl)" "\<not> object_dtype exit_price (load_trades_query tbl)"
      "\<not> object_dtype profit (load_trades_query tbl)" "\<not> object_dtype confidence (load_trades_query tbl)"
  shows "\<exists>pg. fst (dashboard sort_lb sort_sent False selected_agent empty_cache now conn) = Rendered pg"
proof -
  let ?df = "load_trades_query tbl"
  have th: "\<exists>t. trade_history ?df (filtered_trades selected_agent ?df) = Inr t"
    by (simp add: trade_history_def dt)
  have lg: "\<exists>l. decision_logs_drawn ?df (filtered_trades selected_agent ?df) = Inr l"
    by (simp add: decision_logs_drawn_def dt)
  from th lg main_dashboard_query [of sort_lb tbl sort_sent selected_agent
      ?df "load_sentiment_history_query st" "get_equity_curve_query tbl"]
  obtain pg where "main_dashboard sort_lb sort_sent selected_agent ?df
       (load_agent_performance_query tbl) (load_sentiment_history_query st)
       (get_equity_curve_query tbl) = Inr pg"
    by auto
  then show ?thesis
    using dashboard_fresh [OF tbl st, of sort_lb sort_sent selected_agent now]
    by simp
qed

subsection \<open>The headline win rate\<close>

text \<open>
  C4. On any loaded frames the headline win rate is the sum of the per-agent wins of
  \<^verbatim>\<open>agent_perf\<close>, divided by the number of rows of \<^verbatim>\<open>trades_df\<close> (the window of at most
  100 trades) whose action is BUY or SELL, times 100, and it is 0 when that number is
  0: the computation never ends in the division-by-zero error, and a page drawn from
  the frames shows that value. For every store whose tables can be read, the empty
  one included, a run of the script (auto-refresh off) on freshly loaded frames
  does not end in a division by zero, and the page it draws, when it draws one, shows
  that value of the frames loaded from the store.
\<close>

theorem win_rate_guarded:
  fixes trades_df :: "'t::linorder trades_row list" and conn :: "'t database"
  shows "win_rate_hl agent_perf (total_trades_hl trades_df) =
     Inr (if length (filter (\<lambda>r. action r = Some ''BUY'' \<or> action r = Some ''SELL'') trades_df) = 0 then 0
          else real_of_int (sum_list (non_null (map wins agent_perf))) /
               real (length (filter (\<lambda>r. action r = Some ''BUY'' \<or> action r = Some ''SELL'') trades_df)) * 100) \<and>
   (\<forall>pg. main_dashboard sort_lb sort_sent selected_agent trades_df agent_perf sentiment_df equity_df = Inr pg \<longrightarrow>
      win_rate_hl agent_perf (total_trades_hl trades_df) = Inr (metric_win_rate pg)) \<and>
   (\<forall>tbl st. trades conn = Some tbl \<and> market_sentiment conn = Some st \<longrightarrow>
      fst (dashboard sort_lb sort_sent False selected_agent empty_cache now conn) \<noteq> Raised ZeroDivisionError \<and>
      (\<forall>pg. fst (dashboard sort_lb sort_sent False selected_agent empty_cache now conn) = Rendered pg \<longrightarrow>
         win_rate_hl (load_agent_performance_query tbl) (total_trades_hl (load_trades_query tbl)) =
           Inr (metric_win_rate pg)))"
proof (intro conjI allI impI)
  show "win_rate_hl agent_perf (total_trades_hl trades_df) =
     Inr (if length (filter (\<lambda>r. action r = Some ''BUY'' \<or> action r = Some ''SELL'') trades_df) = 0 then 0
          else real_of_int (sum_list (non_null (map wins agent_perf))) /
               real (length (filter (\<lambda>r. action r = Some ''BUY'' \<or> action r = Some ''SELL'') trades_df)) * 100)"
    unfolding win_rate_hl_value total_trades_hl_count pd_sum_def ..
next
  fix pg
  assume "main_dashboard sort_lb sort_sent selected_agent trades_df agent_perf sentiment_df equity_df = Inr pg"
  then show "win_rate_hl agent_perf (total_trades_hl trades_df) = Inr (metric_win_rate pg)"
    by (simp add: main_dashboard_page(1) win_rate_hl_value)
next
  fix tbl st
  assume a: "trades conn = Some tbl \<and> market_sentiment conn = Some st"
  then have fresh: "fst (dashboard sort_lb sort_sent False selected_agent empty_cache now conn) =
     (case main_dashboard sort_lb sort_sent selected_agent (load_trades_query tbl)
             (load_agent_performance_query tbl) (load_sentiment_history_query st)
             (get_equity_curve_query tbl) of
        Inl e \<Rightarrow> Raised e
      | Inr pg \<Rightarrow> Rendered pg)"
    by (simp add: dashboard_fresh)
  show "fst (dashboard sort_lb sort_sent False selected_agent empty_cache now conn) \<noteq> Raised ZeroDivisionError"
    unfolding fresh
    using main_dashboard_no_zero_division [of sort_lb sort_sent selected_agent "load_trades_query tbl" tbl
        "load_sentiment_history_query st" "get_equity_curve_query tbl"]
    by (auto split: sum.splits)
  fix pg
  assume "fst (dashboard sort_lb sort_sent False selected_agent empty_cache now conn) = Rendered pg"
  with a have "main_dashboard sort_lb sort_sent selected_agent (load_trades_query tbl)
             (load_agent_performance_query tbl) (load_sentiment_history_query st)
             (get_equity_curve_query tbl) = Inr pg"
    by (intro dashboard_fresh_rendered [where conn = conn and now = now]) simp_all
  then show "win_rate_hl (load_agent_performance_query tbl) (total_trades_hl (load_trades_query tbl)) =
           Inr (metric_win_rate pg)"
    by (simp add: main_dashboard_page(1) win_rate_hl_value)
qed

theorem win_rate_guarded_witness:
  "win_rate_hl [] (total_trades_hl ([] :: nat trades_row list)) = Inr 0 \<and>
   win_rate_hl (load_agent_performance_query scenario_trades)
     (total_trades_hl (load_trades_query scenario_trades)) = Inr 50 \<and>
   fst (dashboard sort_values_unstable sort_values_unstable False ''Semua'' empty_cache 0
          \<lparr>trades = Some ([] :: nat trade list), market_sentiment = Some []\<rparr>) \<noteq> Raised ZeroDivisionError"
proof -
  let ?conn = "\<lparr>trades = Some ([] :: nat trade list), market_sentiment = Some []\<rparr>"
  note t0 = win_rate_guarded [where agent_perf = "[]" and trades_df = "[] :: nat trades_row list"
      and conn = ?conn and sort_lb = sort_values_unstable and sort_sent = sort_values_unstable
      and selected_agent = "''Semua''" and now = 0 and sentiment_df = "[]" and equity_df = "[]"]
  from t0 have a: "win_rate_hl [] (total_trades_hl ([] :: nat trades_row list)) = Inr 0"
    by simp
  have q: "map wins (load_agent_performance_query scenario_trades) = [Some 1, Some 1]"
    by (simp add: load_agent_performance_query_def group_by_def scenario_trades_def trade_ex_def
        sql_sum_def sql_avg_def sql_gt_def non_null_simps)
  have w: "map action (load_trades_query scenario_trades) = [Some ''BUY'', Some ''BUY'', Some ''SELL'', Some ''BUY'']"
    by (simp add: load_trades_query_def order_by_desc_def scenario_trades_def trade_ex_def
        trades_row.truncate_def)
  have n: "length (filter (\<lambda>r. action r = Some ''BUY'' \<or> action r = Some ''SELL'') (load_trades_query scenario_trades)) =
     length (filter (\<lambda>v. v = Some ''BUY'' \<or> v = Some ''SELL'') (map action (load_trades_query scenario_trades)))"
    by (simp add: filter_map comp_def)
  note t1 = win_rate_guarded [where agent_perf = "load_agent_performance_query scenario_trades"
      and trades_df = "load_trades_query scenario_trades"
      and conn = ?conn and sort_lb = sort_values_unstable and sort_sent = sort_values_unstable
      and selected_agent = "''Semua''" and now = 0 and sentiment_df = "[]" and equity_df = "[]"]
  from t1 have "win_rate_hl (load_agent_performance_query scenario_trades)
     (total_trades_hl (load_trades_query scenario_trades)) =
     Inr (if length (filter (\<lambda>r. action r = Some ''BUY'' \<or> action r = Some ''SELL'') (load_trades_query scenario_trades)) = 0 then 0
          else real_of_int (sum_list (non_null (map wins (load_agent_performance_query scenario_trades)))) /
               real (length (filter (\<lambda>r. action r = Some ''BUY'' \<or> action r = Some ''SELL'') (load_trades_query scenario_trades))) * 100)"
    by blast
  then have b: "win_rate_hl (load_agent_performance_query scenario_trades)
     (total_trades_hl (load_trades_query scenario_trades)) = Inr 50"
    unfolding n q w by (simp add: non_null_simps)
  from t0 have c: "fst (dashboard sort_values_unstable sort_values_unstable False ''Semua'' empty_cache 0 ?conn) \<noteq>
      Raised ZeroDivisionError"
    by simp
  from a b c show ?thesis by blast
qed

subsection \<open>Wins of the whole history over a window of 100\<close>

lemma sum_list_distinct_indicator:
  "distinct ks \<Longrightarrow> (\<Sum>k\<leftarrow>ks. if a = k then (1::nat) else 0) = (if a \<in> set ks then 1 else 0)"
  by (induction ks) auto

lemma sum_length_groups:
  "distinct ks \<Longrightarrow> key ` set xs \<subseteq> set ks \<Longrightarrow>
   (\<Sum>k\<leftarrow>ks. length (filter (\<lambda>r. key r = k) xs)) = length xs"
proof (induction xs)
  case Nil
  then show ?case by simp
next
  case (Cons x xs)
  have "(\<Sum>k\<leftarrow>ks. length (filter (\<lambda>r. key r = k) (x # xs))) =
        (\<Sum>k\<leftarrow>ks. (if key x = k then 1 else 0) + length (filter (\<lambda>r. key r = k) xs))"
    by (rule arg_cong [where f = sum_list]) simp
  also have "\<dots> = (\<Sum>k\<leftarrow>ks. if key x = k then 1 else 0) + (\<Sum>k\<leftarrow>ks. length (filter (\<lambda>r. key r = k) xs))"
    by (simp add: sum_list_addf)
  also have "\<dots> = 1 + length xs"
    using Cons by (simp add: sum_list_distinct_indicator)
  finally show ?case by simp
qed

lemma total_wins:
  fixes tbl :: "'t trade list"
  shows "pd_sum (map wins (load_agent_performance_query tbl)) =
     int (length (filter (\<lambda>t. sql_gt (profit t) 0) tbl))"
proof -
  let ?cl = "filter (\<lambda>t. profit t \<noteq> None) tbl"
  let ?W = "\<lambda>t :: 't trade. sql_gt (profit t) 0"
  let ?ks = "remdups (sort (map agent_name ?cl))"
  let ?grp = "\<lambda>k. filter (\<lambda>r. agent_name r = k) ?cl"
  have w: "sql_sum (map (\<lambda>r. Some (if ?W r then 1 else 0)) (?grp k)) =
           Some (int (length (filter ?W (?grp k))))" if "k \<in> set ?ks" for k
  proof -
    from that obtain t where "t \<in> set ?cl" "agent_name t = k" by auto
    then have "t \<in> set (?grp k)" by simp
    then have "?grp k \<noteq> []" by (metis empty_iff list.set(1))
    then show ?thesis
      by (simp add: sql_sum_def non_null_map_const_Some sum_list_indicator)
  qed
  have "map wins (load_agent_performance_query tbl) =
        map (\<lambda>k. sql_sum (map (\<lambda>r. Some (if ?W r then 1 else 0)) (?grp k))) ?ks"
    by (simp add: load_agent_performance_query_def group_by_def comp_def)
  also have "\<dots> = map (\<lambda>k. Some (int (length (filter ?W (?grp k))))) ?ks"
    by (rule map_cong) (simp_all only: w)
  finally have "pd_sum (map wins (load_agent_performance_query tbl)) =
        (\<Sum>k\<leftarrow>?ks. int (length (filter ?W (?grp k))))"
    by (simp add: pd_sum_def non_null_map_const_Some)
  also have "\<dots> = (\<Sum>k\<leftarrow>?ks. int (length (filter (\<lambda>r. agent_name r = k) (filter ?W ?cl))))"
  proof -
    have "filter ?W (?grp k) = filter (\<lambda>r. agent_name r = k) (filter ?W ?cl)" for k
      unfolding filter_filter by (rule filter_cong) auto
    then show ?thesis by simp
  qed
  also have "\<dots> = int (\<Sum>k\<leftarrow>?ks. length (filter (\<lambda>r. agent_name r = k) (filter ?W ?cl)))"
    by (simp add: sum_list_of_nat [symmetric] comp_def)
  also have "(\<Sum>k\<leftarrow>?ks. length (filter (\<lambda>r. agent_name r = k) (filter ?W ?cl))) = length (filter ?W ?cl)"
    by (rule sum_length_groups) auto
  also have "filter ?W ?cl = filter ?W tbl"
    by (rule filter_cong [OF refl, THEN trans [OF filter_filter]])
      (auto simp add: sql_gt_def split: option.splits)
  finally show ?thesis .
qed

lemma window_at_most_100: "total_trades_hl (load_trades_query tbl) \<le> 100"
proof -
  have "total_trades_hl (load_trades_query tbl) \<le> length (load_trades_query tbl)"
    by (simp add: total_trades_hl_def)
  also have "\<dots> \<le> 100" by (simp add: load_trades_query_def)
  finally show ?thesis .
qed


lemma winning_trades_window:
  "load_trades_query winning_trades \<noteq> []"
  "\<forall>r\<in>set (load_trades_query winning_trades).
     action r = Some ''BUY'' \<and> entry r = Some 100 \<and> sl r = Some 90 \<and> tp r = Some 120 \<and>
     exit_price r = Some 101 \<and> profit r = Some 1 \<and> confidence r = Some (3 / 4)"
proof -
  have "length (load_trades_query winning_trades) = 100"
    by (simp add: load_trades_query_def order_by_desc_def winning_trades_def)
  then show "load_trades_query winning_trades \<noteq> []" by auto
  show "\<forall>r\<in>set (load_trades_query winning_trades).
     action r = Some ''BUY'' \<and> entry r = Some 100 \<and> sl r = Some 90 \<and> tp r = Some 120 \<and>
     exit_price r = Some 101 \<and> profit r = Some 1 \<and> confidence r = Some (3 / 4)"
  proof
    fix r assume "r \<in> set (load_trades_query winning_trades)"
    then have "r \<in> set (map trades_row.truncate winning_trades)"
      unfolding load_trades_query_def order_by_desc_def by (auto dest: in_set_takeD)
    then show "action r = Some ''BUY'' \<and> entry r = Some 100 \<and> sl r = Some 90 \<and> tp r = Some 120 \<and>
     exit_price r = Some 101 \<and> profit r = Some 1 \<and> confidence r = Some (3 / 4)"
      by (auto simp add: winning_trades_def trade_ex_def trades_row.truncate_def)
  qed
qed

lemma winning_trades_facts:
  "length (filter (\<lambda>t. sql_gt (profit t) 0) winning_trades) = 101"
  "total_trades_hl (load_trades_query winning_trades) = 100"
proof -
  have all: "filter (\<lambda>t. sql_gt (profit t) 0) winning_trades = winning_trades"
    unfolding filter_id_conv by (auto simp add: winning_trades_def trade_ex_def sql_gt_def)
  show "length (filter (\<lambda>t. sql_gt (profit t) 0) winning_trades) = 101"
    unfolding all by (simp add: winning_trades_def)
  have "\<forall>r\<in>set (load_trades_query winning_trades). isin [''BUY'', ''SELL''] (action r)"
    using winning_trades_window(2) by (simp add: isin_def)
  then have "filter (\<lambda>r. isin [''BUY'', ''SELL''] (action r)) (load_trades_query winning_trades) =
      load_trades_query winning_trades"
    by (simp add: filter_id_conv)
  then have "total_trades_hl (load_trades_query winning_trades) = length (load_trades_query winning_trades)"
    by (simp add: total_trades_hl_def)
  also have "\<dots> = 100"
    by (simp add: load_trades_query_def order_by_desc_def winning_trades_def)
  finally show "total_trades_hl (load_trades_query winning_trades) = 100" .
qed

lemma winning_trades_rendered:
  "\<exists>pg. fst (dashboard sort_values_unstable sort_values_unstable False ''Semua'' empty_cache 0
            \<lparr>trades = Some winning_trades, market_sentiment = Some []\<rparr>) = Rendered pg"
proof -
  let ?conn = "\<lparr>trades = Some winning_trades, market_sentiment = Some []\<rparr> :: nat database"
  let ?df = "load_trades_query winning_trades"
  note w = winning_trades_window
  have dt: "\<not> object_dtype entry ?df" "\<not> object_dtype sl ?df" "\<not> object_dtype tp ?df"
    "\<not> object_dtype exit_price ?df" "\<not> object_dtype profit ?df" "\<not> object_dtype confidence ?df"
    using w by (simp_all add: not_object_dtype)
  show ?thesis
    by (rule dashboard_fresh_draws [of ?conn winning_trades "[]"]) (simp_all add: dt)
qed

text \<open>
  C10. The wins of the headline win rate are counted over the whole history, the
  trades it divides by only in the window of the 100 latest. So for every history
  with more than 100 closed trades of positive profit and at least one BUY or SELL in
  the window, the win rate computed from freshly loaded frames is above 100, and so is
  the win rate of every page drawn from them (auto-refresh off); and there is such a
  store: with 101 winning BUY trades the page is drawn and its win rate is 101.
\<close>

theorem win_rate_exceeds_100:
  "(\<forall>tbl :: 't::linorder trade list.
      100 < length (filter (\<lambda>t. sql_gt (profit t) 0) tbl) \<and>
      0 < total_trades_hl (load_trades_query tbl) \<longrightarrow>
      (\<exists>w. win_rate_hl (load_agent_performance_query tbl) (total_trades_hl (load_trades_query tbl)) = Inr w \<and>
           100 < w) \<and>
      (\<forall>conn st pg.
         trades conn = Some tbl \<and> market_sentiment conn = Some st \<and>
         fst (dashboard sort_lb sort_sent False selected_agent empty_cache now conn) = Rendered pg \<longrightarrow>
         100 < metric_win_rate pg)) \<and>
   (\<exists>(conn :: nat database) pg.
      fst (dashboard sort_values_unstable sort_values_unstable False ''Semua'' empty_cache 0 conn) = Rendered pg \<and>
      metric_win_rate pg = 101)"
proof (intro conjI allI impI)
  fix tbl :: "'t trade list"
  assume a: "100 < length (filter (\<lambda>t. sql_gt (profit t) 0) tbl) \<and>
      0 < total_trades_hl (load_trades_query tbl)"
  let ?n = "total_trades_hl (load_trades_query tbl)"
  let ?w = "pd_sum (map wins (load_agent_performance_query tbl))"
  define q where "q = real_of_int ?w / real ?n"
  from a have w: "100 < ?w" by (simp add: total_wins)
  have n: "0 < ?n" "?n \<le> 100" using a window_at_most_100 [of tbl] by simp_all
  have "real ?n < real_of_int ?w" using w n by linarith
  then have "1 < q" using n by (simp add: q_def)
  then have big: "100 < q * 100" by simp
  have wr: "win_rate_hl (load_agent_performance_query tbl) ?n = Inr (q * 100)"
    using n by (simp add: win_rate_hl_value q_def)
  with big show "\<exists>w. win_rate_hl (load_agent_performance_query tbl) ?n = Inr w \<and> 100 < w"
    by blast
  fix conn :: "'t database" and st pg
  assume b: "trades conn = Some tbl \<and> market_sentiment conn = Some st \<and>
         fst (dashboard sort_lb sort_sent False selected_agent empty_cache now conn) = Rendered pg"
  then have "main_dashboard sort_lb sort_sent selected_agent (load_trades_query tbl)
             (load_agent_performance_query tbl) (load_sentiment_history_query st)
             (get_equity_curve_query tbl) = Inr pg"
    by (intro dashboard_fresh_rendered [where conn = conn and now = now]) simp_all
  then have "metric_win_rate pg = q * 100"
    using n by (simp add: main_dashboard_page(1) q_def)
  with big show "100 < metric_win_rate pg" by simp
next
  let ?conn = "\<lparr>trades = Some winning_trades, market_sentiment = Some []\<rparr> :: nat database"
  from winning_trades_rendered obtain pg where
    pg: "fst (dashboard sort_values_unstable sort_values_unstable False ''Semua'' empty_cache 0 ?conn) = Rendered pg"
    by blast
  then have "main_dashboard sort_values_unstable sort_values_unstable ''Semua'' (load_trades_query winning_trades)
       (load_agent_performance_query winning_trades) (load_sentiment_history_query [])
       (get_equity_curve_query winning_trades) = Inr pg"
    by (intro dashboard_fresh_rendered [of ?conn]) simp_all
  then have "metric_win_rate pg = 101"
    by (simp add: main_dashboard_page(1) total_wins winning_trades_facts)
  with pg show "\<exists>(conn :: nat database) pg.
      fst (dashboard sort_values_unstable sort_values_unstable False ''Semua'' empty_cache 0 conn) = Rendered pg \<and>
      metric_win_rate pg = 101"
    by blast
qed

theorem win_rate_exceeds_100_witness:
  "\<exists>pg. fst (dashboard sort_values_unstable sort_values_unstable False ''Semua'' empty_cache 0
       \<lparr>trades = Some winning_trades, market_sentiment = Some []\<rparr>) = Rendered pg \<and>
     100 < metric_win_rate pg"
proof -
  let ?conn = "\<lparr>trades = Some winning_trades, market_sentiment = Some []\<rparr> :: nat database"
  from winning_trades_rendered obtain pg where
    pg: "fst (dashboard sort_values_unstable sort_values_unstable False ''Semua'' empty_cache 0 ?conn) = Rendered pg"
    by blast
  have h: "100 < length (filter (\<lambda>t. sql_gt (profit t) 0) winning_trades) \<and>
      0 < total_trades_hl (load_trades_query winning_trades)"
    by (simp add: winning_trades_facts)
  from win_rate_exceeds_100 [where sort_lb = sort_values_unstable and sort_sent = sort_values_unstable
      and selected_agent = "''Semua''" and now = 0 and 't = nat]
  have "\<forall>tbl :: nat trade list.
      100 < length (filter (\<lambda>t. sql_gt (profit t) 0) tbl) \<and>
      0 < total_trades_hl (load_trades_query tbl) \<longrightarrow>
      (\<forall>conn st pg.
         trades conn = Some tbl \<and> market_sentiment conn = Some st \<and>
         fst (dashboard sort_values_unstable sort_values_unstable False ''Semua'' empty_cache 0 conn) = Rendered pg \<longrightarrow>
         100 < metric_win_rate pg)"
    by blast
  with h have "\<forall>conn st pg.
         trades conn = Some winning_trades \<and> market_sentiment conn = Some st \<and>
         fst (dashboard sort_values_unstable sort_values_unstable False ''Semua'' empty_cache 0 conn) = Rendered pg \<longrightarrow>
         100 < metric_win_rate pg"
    by blast
  from this [rule_format, of ?conn "[]" pg] pg have "100 < metric_win_rate pg" by simp
  with pg show ?thesis by blast
qed

subsection \<open>A store that cannot be read\<close>

lemma dashboard_trades_missing:
  "trades conn = None \<Longrightarrow>
   dashboard sort_lb sort_sent False selected_agent c now conn = (Raised DatabaseError, c)"
  by (simp add: dashboard_def agent_options_def read_sql_query_def)

lemma load_data_sentiment_missing:
  assumes "trades conn = Some tbl" and "market_sentiment conn = None"
  shows "fst (load_data empty_cache now conn) = Inl DatabaseError"
  using assms
  by (simp add: load_data_def cache_data_def empty_cache_def load_trades_def
      load_agent_performance_def load_sentiment_history_def read_sql_query_def)

text \<open>
  C6, as the code has it. The script has no handler for a failed query. When the
  \<^verbatim>\<open>trades\<close> table cannot be read, \<^verbatim>\<open>load_trades\<close>, \<^verbatim>\<open>load_agent_performance\<close> and
  \<^verbatim>\<open>get_equity_curve\<close> raise \<^verbatim>\<open>DatabaseError\<close>, and a run of the script that reaches
  its queries (auto-refresh off) ends with that exception whatever the cache holds: no
  page and no placeholder is drawn. When
  \<^verbatim>\<open>market_sentiment\<close> cannot be read, \<^verbatim>\<open>load_sentiment_history\<close> raises the same
  error, and so does a run that has no cached result to fall back on. The
  placeholders of the page are for queries that succeed with no rows.
\<close>

theorem query_failure_propagates:
  fixes conn :: "'t::linorder database"
  shows "(trades conn = None \<longrightarrow>
       load_trades conn = Inl DatabaseError \<and> load_agent_performance conn = Inl DatabaseError \<and>
       get_equity_curve conn = Inl DatabaseError \<and>
       fst (dashboard sort_lb sort_sent False selected_agent c now conn) = Raised DatabaseError) \<and>
     (market_sentiment conn = None \<longrightarrow>
       load_sentiment_history conn = Inl DatabaseError \<and>
       fst (dashboard sort_lb sort_sent False selected_agent empty_cache now conn) = Raised DatabaseError)"
proof (intro conjI impI)
  assume "trades conn = None"
  then show "load_trades conn = Inl DatabaseError" "load_agent_performance conn = Inl DatabaseError"
    "get_equity_curve conn = Inl DatabaseError"
    "fst (dashboard sort_lb sort_sent False selected_agent c now conn) = Raised DatabaseError"
    by (simp_all add: load_trades_def load_agent_performance_def get_equity_curve_def
        read_sql_query_def dashboard_trades_missing)
next
  assume ms: "market_sentiment conn = None"
  then show "load_sentiment_history conn = Inl DatabaseError"
    by (simp add: load_sentiment_history_def read_sql_query_def)
  show "fst (dashboard sort_lb sort_sent False selected_agent empty_cache now conn) = Raised DatabaseError"
  proof (cases "trades conn")
    case None
    then show ?thesis by (simp add: dashboard_trades_missing)
  next
    case (Some tbl)
    from load_data_sentiment_missing [OF Some ms, of now]
    obtain c' where "load_data empty_cache now conn = (Inl DatabaseError, c')"
      by (cases "load_data empty_cache now conn") simp
    then show ?thesis
      by (simp add: dashboard_def agent_options_def read_sql_query_def Some)
  qed
qed

text \<open>
  A store without its tables: \<^verbatim>\<open>load_trades\<close> raises, and the run ends with the
  exception instead of a page of placeholders.
\<close>

theorem query_failure_counterexample:
  "load_trades \<lparr>trades = None, market_sentiment = None :: nat sentiment list option\<rparr> = Inl DatabaseError \<and>
   dashboard sort_values_unstable sort_values_unstable False ''Semua'' empty_cache 0
     \<lparr>trades = None, market_sentiment = None :: nat sentiment list option\<rparr> =
   (Raised DatabaseError, empty_cache)"
  by (simp add: load_trades_def read_sql_query_def dashboard_def agent_options_def)

theorem query_failure_propagates_witness:
  "get_equity_curve \<lparr>trades = None, market_sentiment = Some sentiment_ex\<rparr> = Inl DatabaseError \<and>
   fst (dashboard sort_values_unstable sort_values_unstable False ''alpha'' empty_cache 7
     \<lparr>trades = None, market_sentiment = Some sentiment_ex\<rparr>) = Raised DatabaseError \<and>
   fst (dashboard sort_values_unstable sort_values_unstable False ''alpha'' empty_cache 7
     \<lparr>trades = Some scenario_trades, market_sentiment = None\<rparr>) = Raised DatabaseError"
  using query_failure_propagates [of "\<lparr>trades = None, market_sentiment = Some sentiment_ex\<rparr>"
      sort_values_unstable sort_values_unstable "''alpha''" empty_cache 7]
    query_failure_propagates [of "\<lparr>trades = Some scenario_trades, market_sentiment = None\<rparr>"
      sort_values_unstable sort_values_unstable "''alpha''" empty_cache 7]
  by simp

subsection \<open>An empty trades table\<close>








subsection \<open>Decision logs\<close>

lemma row_get_reflection: "row_get row ''reflection'' d = d"
  by (simp add: row_get_def trades_columns_def row_values_def)

lemma row_get_reason: "row_get row ''reason'' d = text_val (reason row)"
  by (simp add: row_get_def trades_columns_def row_values_def)

lemma decision_log_lines:
  "reason_line (decision_log row) = text_val (reason row)"
  "reflection_line (decision_log row) = None"
  by (simp_all add: decision_log_def row_get_reflection row_get_reason notna_def)

text \<open>
  C8. The expander of a trade shows the trade's reason. Lines 319 and 320 are written
  to show the reflection as well when the row has one, but \<^verbatim>\<open>load_trades\<close> does not
  select the \<^verbatim>\<open>reflection\<close> column, so \<^verbatim>\<open>row.get('reflection')\<close> is never a value: no
  expander, on any frame and on any page drawn from a store, has a reflection line,
  also when the stored row has a reflection. On a store whose one trade has the
  reflection \<^verbatim>\<open>exit was late\<close>, the expander shows the reason alone.
\<close>

theorem decision_log_drops_reflection:
  fixes conn :: "'t::linorder database" and row :: "'t trades_row"
    and trades_df :: "'t trades_row list"
  shows "reason_line (decision_log row) = text_val (reason row) \<and>
     reflection_line (decision_log row) = None \<and>
     (\<forall>entries. decision_logs (filtered_trades selected_agent trades_df) = Shown entries \<longrightarrow>
        (\<forall>e\<in>set entries. reflection_line e = None)) \<and>
     (\<forall>tbl st pg entries.
        trades conn = Some tbl \<and> market_sentiment conn = Some st \<and>
        fst (dashboard sort_lb sort_sent False selected_agent empty_cache now conn) = Rendered pg \<and>
        logs pg = Shown entries \<longrightarrow>
        (\<forall>e\<in>set entries. reflection_line e = None))"
proof -
  have shown: "\<forall>e\<in>set entries. reflection_line e = None"
    if "decision_logs frame = Shown entries" for frame :: "'t trades_row list" and entries
    using that by (auto simp add: decision_logs_def decision_log_lines split: if_splits)
  have page: "\<forall>e\<in>set entries. reflection_line e = None"
    if a: "trades conn = Some tbl \<and> market_sentiment conn = Some st \<and>
        fst (dashboard sort_lb sort_sent False selected_agent empty_cache now conn) = Rendered pg \<and>
        logs pg = Shown entries" for tbl st pg entries
  proof -
    from a have md: "main_dashboard sort_lb sort_sent selected_agent (load_trades_query tbl)
       (load_agent_performance_query tbl) (load_sentiment_history_query st)
       (get_equity_curve_query tbl) = Inr pg"
      by (intro dashboard_fresh_rendered [where conn = conn and now = now]) simp_all
    then have "logs pg = decision_logs (filtered_trades selected_agent (load_trades_query tbl))"
      by (rule main_dashboard_page(2))
    with a have "decision_logs (filtered_trades selected_agent (load_trades_query tbl)) = Shown entries"
      by simp
    then show ?thesis by (rule shown)
  qed
  from shown [of "filtered_trades selected_agent trades_df"] page decision_log_lines [of row]
  show ?thesis by blast
qed

theorem decision_log_drops_reflection_witness:
  "map reflection reflected_trades = [Some ''exit was late''] \<and>
   (\<exists>pg. fst (dashboard sort_values_unstable sort_values_unstable False ''Semua'' empty_cache 0
             \<lparr>trades = Some reflected_trades, market_sentiment = Some []\<rparr>) = Rendered pg \<and>
      logs pg =
        Shown [\<lparr>expander = [TimeV 1, TextV ''BUY'', TextV ''alpha'', NumV (3 / 4)],
                reason_line = TextV ''breakout'', reflection_line = None\<rparr>])"
proof -
  let ?conn = "\<lparr>trades = Some reflected_trades, market_sentiment = Some []\<rparr> :: nat database"
  have r: "map reflection reflected_trades = [Some ''exit was late'']"
    by (simp add: reflected_trades_def trade_ex_def)
  have w: "load_trades_query reflected_trades = [trades_row.truncate (trade_ex 1 1 ''BUY'' (Some 10) ''alpha'')]"
    by (simp add: load_trades_query_def order_by_desc_def reflected_trades_def)
  have "\<exists>pg. fst (dashboard sort_values_unstable sort_values_unstable False ''Semua'' empty_cache 0 ?conn) = Rendered pg"
    by (rule dashboard_fresh_draws [of ?conn reflected_trades "[]"])
      (simp_all add: w object_dtype_def trade_ex_def trades_row.truncate_def)
  then obtain pg where pg: "fst (dashboard sort_values_unstable sort_values_unstable False ''Semua'' empty_cache 0 ?conn) = Rendered pg"
    by blast
  then have md: "main_dashboard sort_values_unstable sort_values_unstable ''Semua'' (load_trades_query reflected_trades)
       (load_agent_performance_query reflected_trades) (load_sentiment_history_query [])
       (get_equity_curve_query reflected_trades) = Inr pg"
    by (intro dashboard_fresh_rendered [of ?conn]) simp_all
  then have lg: "logs pg = decision_logs (filtered_trades ''Semua'' (load_trades_query reflected_trades))"
    by (rule main_dashboard_page(2))
  then obtain e where e: "logs pg = Shown [e]" "e = decision_log (trades_row.truncate (trade_ex 1 1 ''BUY'' (Some 10) ''alpha''))"
    unfolding w by (simp add: decision_logs_def filtered_trades_def trades_columns_def)
  let ?row = "trades_row.truncate (trade_ex 1 1 ''BUY'' (Some 10) ''alpha'')"
  from decision_log_drops_reflection [where row = ?row
      and conn = ?conn and trades_df = "[]" and selected_agent = "''Semua''" and now = 0
      and sort_lb = sort_values_unstable and sort_sent = sort_values_unstable]
  have "reason_line (decision_log ?row) = text_val (reason ?row) \<and> reflection_line (decision_log ?row) = None"
    by blast
  then have "reason_line e = TextV ''breakout''" "reflection_line e = None"
    unfolding e(2) by (simp_all add: trade_ex_def trades_row.truncate_def text_val_def)
  moreover have "expander e = [TimeV 1, TextV ''BUY'', TextV ''alpha'', NumV (3 / 4)]"
    unfolding e(2)
    by (simp add: decision_log_def row_get_def trades_columns_def row_values_def trade_ex_def
        trades_row.truncate_def text_val_def num_val_def)
  ultimately have "e = \<lparr>expander = [TimeV 1, TextV ''BUY'', TextV ''alpha'', NumV (3 / 4)],
                reason_line = TextV ''breakout'', reflection_line = None\<rparr>"
    by (cases e) simp
  with pg e(1) r show ?thesis by blast
qed

subsection \<open>Loading twice\<close>

lemma cache_data_matches:
  assumes "slot_matches f conn slot"
  shows "fst (cache_data ttl f slot now conn) = f conn"
    and "slot_matches f conn (snd (cache_data ttl f slot now conn))"
  using assms
  by (auto simp add: cache_data_def slot_matches_def Let_def split: option.splits sum.splits)

lemma cache_matches_empty: "cache_matches empty_cache conn"
  by (simp add: cache_matches_def slot_matches_def empty_cache_def)

lemma load_data_matches:
  assumes m: "cache_matches c conn"
  shows "fst (load_data c now conn) = direct_load conn"
    and "cache_matches (snd (load_data c now conn)) conn"
proof -
  from m have m1: "slot_matches load_trades conn (trades_cache c)"
    and m2: "slot_matches load_agent_performance conn (agent_performance_cache c)"
    and m3: "slot_matches load_sentiment_history conn (sentiment_history_cache c)"
    by (simp_all add: cache_matches_def)
  note r1 = cache_data_matches [OF m1, of 10 now]
  note r2 = cache_data_matches [OF m2, of 60 now]
  note r3 = cache_data_matches [OF m3, of 300 now]
  obtain a1 s1 where c1: "cache_data 10 load_trades (trades_cache c) now conn = (a1, s1)"
    by (cases "cache_data 10 load_trades (trades_cache c) now conn")
  obtain a2 s2 where c2: "cache_data 60 load_agent_performance (agent_performance_cache c) now conn = (a2, s2)"
    by (cases "cache_data 60 load_agent_performance (agent_performance_cache c) now conn")
  obtain a3 s3 where c3: "cache_data 300 load_sentiment_history (sentiment_history_cache c) now conn = (a3, s3)"
    by (cases "cache_data 300 load_sentiment_history (sentiment_history_cache c) now conn")
  from r1 c1 have a1: "a1 = load_trades conn" "slot_matches load_trades conn s1" by simp_all
  from r2 c2 have a2: "a2 = load_agent_performance conn" "slot_matches load_agent_performance conn s2" by simp_all
  from r3 c3 have a3: "a3 = load_sentiment_history conn" "slot_matches load_sentiment_history conn s3" by simp_all
  show "fst (load_data c now conn) = direct_load conn"
    using a1(1) a2(1) a3(1)
    by (simp add: load_data_def direct_load_def c1 c2 c3 Let_def split: sum.splits)
  show "cache_matches (snd (load_data c now conn)) conn"
    using a1(2) a2(2) a3(2) m2 m3
    by (simp add: load_data_def cache_matches_def c1 c2 c3 Let_def split: sum.splits)
qed


text \<open>
  C9, as the code has it. \<^verbatim>\<open>get_equity_curve\<close> has no cache: it is its query on the
  store. The other three loaders are called through \<^verbatim>\<open>st.cache_data\<close>. Whenever the
  cache slot of a loader is empty or holds a value computed from the present store, a
  call returns what the loader's query returns on the store, at any time, and so does
  a second call; a run of the four loads on a matching cache returns the four query
  results, leaves a matching cache, and a second run returns the same. The empty cache
  matches every store. Nothing is claimed of a slot that holds a value computed from
  an earlier store.
\<close>

theorem reload_identical_when_cache_matches:
  fixes conn :: "'t::linorder database" and f :: "'c \<Rightarrow> error + 'a"
  shows "(slot_matches f x slot \<longrightarrow>
        fst (cache_data ttl f slot now x) = f x \<and>
        fst (cache_data ttl f (snd (cache_data ttl f slot now x)) now' x) = f x) \<and>
     cache_matches empty_cache conn \<and>
     (cache_matches c conn \<longrightarrow>
        fst (cache_data 10 load_trades (trades_cache c) now conn) = load_trades conn \<and>
        fst (cache_data 60 load_agent_performance (agent_performance_cache c) now conn) =
          load_agent_performance conn \<and>
        fst (cache_data 300 load_sentiment_history (sentiment_history_cache c) now conn) =
          load_sentiment_history conn \<and>
        fst (load_data c now conn) = direct_load conn \<and>
        cache_matches (snd (load_data c now conn)) conn \<and>
        fst (load_data (snd (load_data c now conn)) now' conn) = fst (load_data c now conn))"
proof (intro conjI impI)
  assume m: "slot_matches f x slot"
  show "fst (cache_data ttl f slot now x) = f x"
    using m by (rule cache_data_matches)
  from m have "slot_matches f x (snd (cache_data ttl f slot now x))"
    by (rule cache_data_matches)
  then show "fst (cache_data ttl f (snd (cache_data ttl f slot now x)) now' x) = f x"
    by (rule cache_data_matches)
next
  show "cache_matches empty_cache conn" by (rule cache_matches_empty)
next
  assume m: "cache_matches c conn"
  then show "fst (cache_data 10 load_trades (trades_cache c) now conn) = load_trades conn"
    "fst (cache_data 60 load_agent_performance (agent_performance_cache c) now conn) =
          load_agent_performance conn"
    "fst (cache_data 300 load_sentiment_history (sentiment_history_cache c) now conn) =
          load_sentiment_history conn"
    by (simp_all add: cache_matches_def cache_data_matches)
  show d: "fst (load_data c now conn) = direct_load conn"
    using m by (rule load_data_matches)
  show m': "cache_matches (snd (load_data c now conn)) conn"
    using m by (rule load_data_matches)
  from m' have "fst (load_data (snd (load_data c now conn)) now' conn) = direct_load conn"
    by (rule load_data_matches)
  with d show "fst (load_data (snd (load_data c now conn)) now' conn) = fst (load_data c now conn)"
    by simp
qed

text \<open>
  The cache of \<^verbatim>\<open>load_trades\<close> is filled at time 0 from a store with no trades; then a
  trade is written. On the store as it is now, unchanged between the two calls, the
  call at time 5 returns the cached empty frame and the call at time 12, after the 10
  seconds of the entry, returns the trade.
\<close>

theorem stale_cache_counterexample:
  "snd (cache_data 10 load_trades None 0 store_before) = Some \<lparr>cached_value = [], stored_at = 0\<rparr> \<and>
   fst (cache_data 10 load_trades (Some \<lparr>cached_value = [], stored_at = 0\<rparr>) 5 store_after) = Inr [] \<and>
   snd (cache_data 10 load_trades (Some \<lparr>cached_value = [], stored_at = 0\<rparr>) 5 store_after) =
     Some \<lparr>cached_value = [], stored_at = 0\<rparr> \<and>
   fst (cache_data 10 load_trades (Some \<lparr>cached_value = [], stored_at = 0\<rparr>) 12 store_after) =
     Inr [trades_row.truncate (trade_ex 1 1 ''BUY'' (Some 10) ''alpha'')]"
  by (simp add: cache_data_def load_trades_def read_sql_query_def load_trades_query_def
      order_by_desc_def store_before_def store_after_def reflected_trades_def)

theorem reload_identical_when_cache_matches_witness:
  "fst (load_data empty_cache 3 store_after) =
     Inr ([trades_row.truncate (trade_ex 1 1 ''BUY'' (Some 10) ''alpha'')],
          load_agent_performance_query reflected_trades, [],
          get_equity_curve_query reflected_trades) \<and>
   fst (load_data (snd (load_data empty_cache 3 store_after)) 500 store_after) =
     fst (load_data empty_cache 3 store_after)"
proof -
  note t = reload_identical_when_cache_matches [where conn = store_after and c = empty_cache
      and now = 3 and now' = 500 and f = load_trades and x = store_after and slot = None and ttl = 10]
  from t have m: "cache_matches empty_cache store_after" by blast
  with t have a: "fst (load_data empty_cache 3 store_after) = direct_load store_after"
    and b: "fst (load_data (snd (load_data empty_cache 3 store_after)) 500 store_after) =
     fst (load_data empty_cache 3 store_after)"
    by blast+
  have "direct_load store_after =
     Inr ([trades_row.truncate (trade_ex 1 1 ''BUY'' (Some 10) ''alpha'')],
          load_agent_performance_query reflected_trades, [],
          get_equity_curve_query reflected_trades)"
    by (simp add: direct_load_def load_trades_def load_agent_performance_def
        load_sentiment_history_def get_equity_curve_def read_sql_query_def store_after_def
        load_trades_query_def load_sentiment_history_query_def order_by_desc_def reflected_trades_def)
  with a b show ?thesis by simp
qed

end
